theory Spec2Isabelle
  imports Main "HOL-Library.AList"
begin

section \<open>Python values, errors and the library surface\<close>

text \<open>
  Invoices, line items and template data reach the program as decoded JSON: a value is
  \<open>None\<close>, a boolean, an integer, a float, a string, a list or a dictionary with string keys.
  Dictionaries are association lists (insertion order matters to \<open>json.dumps\<close>); a key is
  looked up with \<open>map_of\<close>. Binary floating point is not modelled: the float type is the
  parameter \<open>'f\<close>, and every operation on it is a field of the library record below.
\<close>

datatype 'f pyval =
    PNone
  | PBool bool
  | PInt int
  | PFloat 'f
  | PStr string
  | PList "'f pyval list"
  | PDict "(string \<times> 'f pyval) list"

text \<open>
  Exceptions are values. \<open>KeyError\<close> carries the missing key and \<open>ValueError\<close> its message;
  \<open>TypeError\<close>, \<open>AttributeError\<close> and \<open>OverflowError\<close> carry a short tag of the operation
  that raised. (\<open>json.JSONDecodeError\<close> is a \<open>ValueError\<close>.)
\<close>

datatype py_error =
    KeyError string
  | ValueError string
  | TypeError string
  | AttributeError string
  | OverflowError string

text \<open>Sequencing: an exception raised by the first step is the result.\<close>

definition bnd :: "py_error + 'a \<Rightarrow> ('a \<Rightarrow> py_error + 'b) \<Rightarrow> py_error + 'b" where
  "bnd m f = (case m of Inl e \<Rightarrow> Inl e | Inr x \<Rightarrow> f x)"

record datetime =
  year :: nat
  month :: nat
  day :: nat
  hour :: nat
  minute :: nat
  second :: nat

text \<open>
  The functions of Python's standard library that the program calls and that are not part
  of the repository: \<open>datetime.fromisoformat\<close> and \<open>strftime\<close>, \<open>json.loads\<close>, \<open>json.dumps\<close>,
  the float operations (\<open>float(n)\<close>, \<open>float(s)\<close>, division by an integer, \<open>*\<close>, \<open>> 0\<close>, truth
  value, the \<open>.2f\<close> format, \<open>repr\<close>) and \<open>repr\<close> of a list or dictionary. A failing call
  returns the exception it raises (\<open>float(n)\<close> raises \<open>OverflowError\<close> on a huge integer, as
  does formatting it with \<open>.2f\<close>). Every general theorem below holds for any such library;
  closed examples use the instance \<open>L0\<close> defined further down.
\<close>

record 'f pylib =
  fromisoformat :: "string \<Rightarrow> py_error + datetime"
  strftime :: "datetime \<Rightarrow> string \<Rightarrow> string"
  json_loads :: "string \<Rightarrow> py_error + 'f pyval"
  json_dumps :: "'f pyval \<Rightarrow> string"
  float_of_int :: "int \<Rightarrow> py_error + 'f"
  float_of_str :: "string \<Rightarrow> py_error + 'f"
  float_div_int :: "'f \<Rightarrow> int \<Rightarrow> 'f"
  float_mul :: "'f \<Rightarrow> 'f \<Rightarrow> 'f"
  float_pos :: "'f \<Rightarrow> bool"
  float_nonzero :: "'f \<Rightarrow> bool"
  format_2f :: "'f \<Rightarrow> string"
  repr_float :: "'f \<Rightarrow> string"
  repr_container :: "'f pyval \<Rightarrow> string"

subsection \<open>Built-in operations\<close>

text \<open>\<open>str(n)\<close> for an integer: its decimal digits.\<close>

fun show_nat :: "nat \<Rightarrow> string" where
  "show_nat n =
     (if n < 10 then [''0123456789'' ! n]
      else show_nat (n div 10) @ [''0123456789'' ! (n mod 10)])"

declare show_nat.simps [simp del]

definition show_int :: "int \<Rightarrow> string" where
  "show_int i = (if i < 0 then CHR ''-'' # show_nat (nat (- i)) else show_nat (nat i))"

text \<open>Decimal digits read back as a number.\<close>

definition digit_of :: "char \<Rightarrow> nat option" where
  "digit_of c = map_of (zip ''0123456789'' [0, 1, 2, 3, 4, 5, 6, 7, 8, 9]) c"

fun nat_of_digits :: "nat \<Rightarrow> string \<Rightarrow> nat option" where
  "nat_of_digits acc [] = Some acc"
| "nat_of_digits acc (c # cs) =
     (case digit_of c of Some d \<Rightarrow> nat_of_digits (10 * acc + d) cs | None \<Rightarrow> None)"

definition parse_nat :: "string \<Rightarrow> nat option" where
  "parse_nat s = (if s = [] then None else nat_of_digits 0 s)"

text \<open>\<open>str(v)\<close>, also what an f-string field \<open>{v}\<close> inserts.\<close>

definition py_str :: "'f pylib \<Rightarrow> 'f pyval \<Rightarrow> string" where
  "py_str L v =
     (case v of
        PNone \<Rightarrow> ''None''
      | PBool b \<Rightarrow> (if b then ''True'' else ''False'')
      | PInt n \<Rightarrow> show_int n
      | PFloat x \<Rightarrow> repr_float L x
      | PStr s \<Rightarrow> s
      | PList xs \<Rightarrow> repr_container L v
      | PDict d \<Rightarrow> repr_container L v)"

text \<open>The truth value of \<open>v\<close> in \<open>if v\<close> and \<open>not v\<close>.\<close>

definition py_truthy :: "'f pylib \<Rightarrow> 'f pyval \<Rightarrow> bool" where
  "py_truthy L v =
     (case v of
        PNone \<Rightarrow> False
      | PBool b \<Rightarrow> b
      | PInt n \<Rightarrow> n \<noteq> 0
      | PFloat x \<Rightarrow> float_nonzero L x
      | PStr s \<Rightarrow> s \<noteq> []
      | PList xs \<Rightarrow> xs \<noteq> []
      | PDict d \<Rightarrow> d \<noteq> [])"

text \<open>
  \<open>for item in v\<close>: a list yields its elements, a string its characters, a dictionary its
  keys; anything else raises \<open>TypeError\<close>.
\<close>

definition py_iter :: "'f pyval \<Rightarrow> py_error + 'f pyval list" where
  "py_iter v =
     (case v of
        PList xs \<Rightarrow> Inr xs
      | PStr s \<Rightarrow> Inr (map (\<lambda>c. PStr [c]) s)
      | PDict d \<Rightarrow> Inr (map (\<lambda>kv. PStr (fst kv)) d)
      | _ \<Rightarrow> Inl (TypeError ''object is not iterable''))"

text \<open>\<open>v.get(key, default)\<close>: only a dictionary has the method.\<close>

definition py_get :: "'f pyval \<Rightarrow> string \<Rightarrow> 'f pyval \<Rightarrow> py_error + 'f pyval" where
  "py_get v key dflt =
     (case v of
        PDict d \<Rightarrow> Inr (case map_of d key of Some x \<Rightarrow> x | None \<Rightarrow> dflt)
      | _ \<Rightarrow> Inl (AttributeError ''get''))"

text \<open>\<open>v[key]\<close> with a string key.\<close>

definition py_getitem :: "'f pyval \<Rightarrow> string \<Rightarrow> py_error + 'f pyval" where
  "py_getitem v key =
     (case v of
        PDict d \<Rightarrow> (case map_of d key of Some x \<Rightarrow> Inr x | None \<Rightarrow> Inl (KeyError key))
      | PList xs \<Rightarrow> Inl (TypeError ''list indices must be integers'')
      | PStr s \<Rightarrow> Inl (TypeError ''string indices must be integers'')
      | _ \<Rightarrow> Inl (TypeError ''object is not subscriptable''))"

text \<open>\<open>float(v)\<close>.\<close>

definition py_float :: "'f pylib \<Rightarrow> 'f pyval \<Rightarrow> py_error + 'f" where
  "py_float L v =
     (case v of
        PInt n \<Rightarrow> float_of_int L n
      | PBool b \<Rightarrow> float_of_int L (if b then 1 else 0)
      | PFloat x \<Rightarrow> Inr x
      | PStr s \<Rightarrow> float_of_str L s
      | _ \<Rightarrow> Inl (TypeError ''float() argument must be a string or a real number''))"

text \<open>\<open>sep.join(parts)\<close>.\<close>

fun str_join :: "string \<Rightarrow> string list \<Rightarrow> string" where
  "str_join sep [] = []"
| "str_join sep [x] = x"
| "str_join sep (x # y # zs) = x @ sep @ str_join sep (y # zs)"

text \<open>\<open>needle in text\<close> for strings.\<close>

fun str_contains :: "string \<Rightarrow> string \<Rightarrow> bool" where
  "str_contains needle [] = (needle = [])"
| "str_contains needle (c # cs) =
     (take (length needle) (c # cs) = needle \<or> str_contains needle cs)"

section \<open>Template processor (src/server/template\_processor.py)\<close>

subsection \<open>replace\_template\_variables\<close>

text \<open>
  The pattern \<open>\{\{(\w+)\}\}\<close>. A word character is an ASCII letter, digit or underscore
  (texts are ASCII in this model).
\<close>

definition is_word_char :: "char \<Rightarrow> bool" where
  "is_word_char c =
     (let n = (of_char c :: nat) in
        (48 \<le> n \<and> n \<le> 57) \<or> (65 \<le> n \<and> n \<le> 90) \<or> n = 95 \<or> (97 \<le> n \<and> n \<le> 122))"

text \<open>
  A match of the pattern at the start of the text: two opening braces, the longest run of
  word characters (at least one), two closing braces. The result is the captured name and
  the text after the match. The greedy run never has to give characters back, since a
  closing brace is no word character.
\<close>

definition match_token :: "string \<Rightarrow> (string \<times> string) option" where
  "match_token s =
     (case s of
        c1 # c2 # r \<Rightarrow>
          if c1 = CHR ''{'' \<and> c2 = CHR ''{'' \<and> takeWhile is_word_char r \<noteq> [] then
            (case dropWhile is_word_char r of
               d1 # d2 # rest \<Rightarrow>
                 if d1 = CHR ''}'' \<and> d2 = CHR ''}''
                 then Some (takeWhile is_word_char r, rest) else None
             | _ \<Rightarrow> None)
          else None
      | _ \<Rightarrow> None)"

lemma match_token_shorter:
  "match_token s = Some (name, rest) \<Longrightarrow> length rest < length s"
proof -
  assume m: "match_token s = Some (name, rest)"
  then obtain c1 c2 r where s: "s = c1 # c2 # r"
    by (auto simp: match_token_def split: list.splits)
  from m s obtain d1 d2 where d: "dropWhile is_word_char r = d1 # d2 # rest"
    by (auto simp: match_token_def split: list.splits if_splits)
  have "length (dropWhile is_word_char r) \<le> length r"
    by (rule length_dropWhile_le)
  with d s show ?thesis by simp
qed

text \<open>
  \<open>re.sub(pattern, repl, text)\<close> for this pattern: scan from the left; at a match, emit the
  replacement and go on after the match; otherwise emit the character and go on with the
  next one.
\<close>

function re_sub_tokens :: "(string \<Rightarrow> string) \<Rightarrow> string \<Rightarrow> string" where
  "re_sub_tokens repl [] = []"
| "re_sub_tokens repl (c # cs) =
     (case match_token (c # cs) of
        Some (name, rest) \<Rightarrow> repl name @ re_sub_tokens repl rest
      | None \<Rightarrow> c # re_sub_tokens repl cs)"
  by pat_completeness auto
termination
proof (relation "measure (\<lambda>(repl, s). length s)")
  show "wf (measure (\<lambda>(repl, s). length s))" by simp
next
  fix repl :: "string \<Rightarrow> string" and c cs x2 x y
  assume "match_token (c # cs) = Some x2" and "(x, y) = x2"
  then have "length y < length (c # cs)"
    using match_token_shorter [of "c # cs" x y] by simp
  then show "((repl, y), (repl, c # cs)) \<in> measure (\<lambda>(repl, s). length s)" by simp
next
  fix repl :: "string \<Rightarrow> string" and c cs
  show "((repl, cs), (repl, c # cs)) \<in> measure (\<lambda>(repl, s). length s)" by simp
qed

text \<open>The inner function \<open>replace_var\<close>: \<open>str(data.get(var_name, "{{var_name}}"))\<close>.\<close>

definition replace_var :: "'f pylib \<Rightarrow> (string \<times> 'f pyval) list \<Rightarrow> string \<Rightarrow> string" where
  "replace_var L data var_name =
     py_str L (case map_of data var_name of
                 Some v \<Rightarrow> v
               | None \<Rightarrow> PStr (''{{'' @ var_name @ ''}}''))"

definition replace_template_variables ::
  "'f pylib \<Rightarrow> string \<Rightarrow> (string \<times> 'f pyval) list \<Rightarrow> string" where
  "replace_template_variables L text data =
     (if text = [] then [] else re_sub_tokens (replace_var L data) text)"

subsection \<open>process\_table\_rows\<close>

text \<open>
  A table of the document library: the number of grid columns (the number of cells
  \<open>table.add_row()\<close> gives a new row) and the rows, each the list of its cells' texts.
\<close>

record table =
  ncols :: nat
  cells :: "string list list"

text \<open>
  The dictionary built for one item at lines 62 to 68: \<open>item.get\<close> raises on an item that
  is no dictionary, \<open>float\<close> on a rate or amount that is no number.
\<close>

definition item_mapping :: "'f pylib \<Rightarrow> 'f pyval \<Rightarrow> py_error + (string \<times> 'f pyval) list" where
  "item_mapping L item =
     bnd (py_get item ''name'' (PStr [])) (\<lambda>name.
     bnd (py_get item ''description'' (PStr [])) (\<lambda>description.
     bnd (py_get item ''quantity'' (PInt 1)) (\<lambda>quantity.
     bnd (bnd (py_get item ''rate'' (PInt 0)) (py_float L)) (\<lambda>rate.
     bnd (bnd (py_get item ''amount'' (PInt 0)) (py_float L)) (\<lambda>amount.
       Inr [(''item_name'', name),
            (''item_description'', description),
            (''item_quantity'', PStr (py_str L quantity)),
            (''item_rate'', PStr (''$'' @ format_2f L rate)),
            (''item_amount'', PStr (''$'' @ format_2f L amount))])))))"

text \<open>
  The inner loop (lines 59 to 69) over \<open>enumerate(template_row.cells)\<close>: cell \<open>i\<close> of the new
  row receives the substituted text of cell \<open>i\<close> of the template row, when the new row has
  a cell \<open>i\<close>. The item dictionary is built again for every cell.
\<close>

fun fill_cells ::
  "'f pylib \<Rightarrow> 'f pyval \<Rightarrow> (nat \<times> string) list \<Rightarrow> string list \<Rightarrow> py_error + string list" where
  "fill_cells L item [] new_cells = Inr new_cells"
| "fill_cells L item ((i, template_text) # todo) new_cells =
     (if i < length new_cells then
        bnd (item_mapping L item) (\<lambda>m.
          fill_cells L item todo
            (new_cells[i := replace_template_variables L template_text m]))
      else fill_cells L item todo new_cells)"

text \<open>\<open>table.add_row()\<close> gives \<open>ncols\<close> empty cells; the inner loop then fills them.\<close>

definition new_item_row ::
  "'f pylib \<Rightarrow> nat \<Rightarrow> string list \<Rightarrow> 'f pyval \<Rightarrow> py_error + string list" where
  "new_item_row L n template_cells item =
     fill_cells L item (enumerate 0 template_cells) (replicate n [])"

text \<open>The outer loop (line 54): one new row per item, appended at the end of the table.\<close>

fun add_item_rows ::
  "'f pylib \<Rightarrow> nat \<Rightarrow> string list \<Rightarrow> 'f pyval list \<Rightarrow> string list list
     \<Rightarrow> py_error + string list list" where
  "add_item_rows L n template_cells [] rows = Inr rows"
| "add_item_rows L n template_cells (item # items) rows =
     bnd (new_item_row L n template_cells item) (\<lambda>new_row.
       add_item_rows L n template_cells items (rows @ [new_row]))"

text \<open>Lines 45 to 51: the rows after the template row are removed, the last one first.\<close>

definition remove_row :: "nat \<Rightarrow> 'a list \<Rightarrow> 'a list" where
  "remove_row i rows = take i rows @ drop (Suc i) rows"

definition remove_rows_after :: "nat \<Rightarrow> 'a list \<Rightarrow> 'a list" where
  "remove_rows_after template_row_index rows =
     fold remove_row (rev [template_row_index + 1 ..< length rows]) rows"

definition process_table_rows ::
  "'f pylib \<Rightarrow> table \<Rightarrow> 'f pyval \<Rightarrow> nat \<Rightarrow> py_error + table" where
  "process_table_rows L t invoice_items template_row_index =
     (if \<not> py_truthy L invoice_items \<or> template_row_index \<ge> length (cells t) then Inr t
      else
        let template_row = cells t ! template_row_index;
            kept = remove_rows_after template_row_index (cells t)
        in bnd (py_iter invoice_items) (\<lambda>items.
           bnd (add_item_rows L (ncols t) template_row items kept) (\<lambda>rows.
             Inr (t\<lparr>cells := rows\<rparr>))))"

subsection \<open>process\_document: the tables (lines 119 to 140)\<close>

text \<open>
  The scan for the first row whose cell texts, joined by a space, contain \<open>{{item_\<close>.
\<close>

fun find_item_row :: "nat \<Rightarrow> string list list \<Rightarrow> nat option" where
  "find_item_row row_index [] = None"
| "find_item_row row_index (row # rows) =
     (if str_contains ''{{item_'' (str_join '' '' row) then Some row_index
      else find_item_row (Suc row_index) rows)"

definition process_table ::
  "'f pylib \<Rightarrow> (string \<times> 'f pyval) list \<Rightarrow> 'f pyval \<Rightarrow> table \<Rightarrow> py_error + table" where
  "process_table L replacement_data invoice_items t =
     (case find_item_row 0 (cells t) of
        Some template_row_index \<Rightarrow> process_table_rows L t invoice_items template_row_index
      | None \<Rightarrow>
          Inr (t\<lparr>cells :=
                 map (map (\<lambda>text. if text \<noteq> []
                                   then replace_template_variables L text replacement_data
                                   else text))
                     (cells t)\<rparr>))"

text \<open>A loop whose body may raise: the first exception ends it.\<close>

fun for_each :: "('a \<Rightarrow> py_error + 'b) \<Rightarrow> 'a list \<Rightarrow> py_error + 'b list" where
  "for_each f [] = Inr []"
| "for_each f (x # xs) = bnd (f x) (\<lambda>y. bnd (for_each f xs) (\<lambda>ys. Inr (y # ys)))"

definition process_document_tables ::
  "'f pylib \<Rightarrow> (string \<times> 'f pyval) list \<Rightarrow> 'f pyval \<Rightarrow> table list \<Rightarrow> py_error + table list" where
  "process_document_tables L replacement_data invoice_items tables =
     for_each (process_table L replacement_data invoice_items) tables"

section \<open>Accounting export (src/server/accounting\_export.py)\<close>

subsection \<open>String methods and the csv writer\<close>

definition to_upper :: "char \<Rightarrow> char" where
  "to_upper c =
     (case map_of (zip ''abcdefghijklmnopqrstuvwxyz'' ''ABCDEFGHIJKLMNOPQRSTUVWXYZ'') c of
        Some u \<Rightarrow> u | None \<Rightarrow> c)"

definition to_lower :: "char \<Rightarrow> char" where
  "to_lower c =
     (case map_of (zip ''ABCDEFGHIJKLMNOPQRSTUVWXYZ'' ''abcdefghijklmnopqrstuvwxyz'') c of
        Some l \<Rightarrow> l | None \<Rightarrow> c)"

definition is_letter :: "char \<Rightarrow> bool" where
  "is_letter c = (to_upper c \<noteq> c \<or> to_lower c \<noteq> c)"

text \<open>
  \<open>s.title()\<close>: a letter that follows a letter is lowered, any other letter is raised
  (ASCII letters; other characters are kept and start a new word).
\<close>

fun title_from :: "bool \<Rightarrow> string \<Rightarrow> string" where
  "title_from after_letter [] = []"
| "title_from after_letter (c # cs) =
     (if is_letter c
      then (if after_letter then to_lower c else to_upper c) # title_from True cs
      else c # title_from False cs)"

text \<open>The methods are looked up on the value: a value that is no string has none of them.\<close>

definition py_upper :: "'f pyval \<Rightarrow> py_error + string" where
  "py_upper v = (case v of PStr s \<Rightarrow> Inr (map to_upper s) | _ \<Rightarrow> Inl (AttributeError ''upper''))"

definition py_title :: "'f pyval \<Rightarrow> py_error + string" where
  "py_title v = (case v of PStr s \<Rightarrow> Inr (title_from False s) | _ \<Rightarrow> Inl (AttributeError ''title''))"

text \<open>\<open>v.replace('Z', '+00:00')\<close>.\<close>

definition py_replace_Z :: "'f pyval \<Rightarrow> py_error + string" where
  "py_replace_Z v =
     (case v of
        PStr s \<Rightarrow> Inr (concat (map (\<lambda>c. if c = CHR ''Z'' then ''+00:00'' else [c]) s))
      | _ \<Rightarrow> Inl (AttributeError ''replace''))"

text \<open>\<open>datetime.fromisoformat(invoice[key].replace('Z', '+00:00'))\<close>.\<close>

definition parse_date :: "'f pylib \<Rightarrow> 'f pyval \<Rightarrow> string \<Rightarrow> py_error + datetime" where
  "parse_date L invoice key =
     bnd (py_getitem invoice key) (\<lambda>v. bnd (py_replace_Z v) (fromisoformat L))"

text \<open>The format \<open>{v:.2f}\<close> of an f-string.\<close>

definition py_format_2f :: "'f pylib \<Rightarrow> 'f pyval \<Rightarrow> py_error + string" where
  "py_format_2f L v =
     (case v of
        PInt n \<Rightarrow> bnd (float_of_int L n) (\<lambda>x. Inr (format_2f L x))
      | PBool b \<Rightarrow> bnd (float_of_int L (if b then 1 else 0)) (\<lambda>x. Inr (format_2f L x))
      | PFloat x \<Rightarrow> Inr (format_2f L x)
      | PStr s \<Rightarrow> Inl (ValueError ''Unknown format code f for object of type str'')
      | _ \<Rightarrow> Inl (TypeError ''unsupported format string''))"

text \<open>
  The writer of \<open>csv.DictWriter\<close> in its default dialect: \<open>None\<close> is written as the empty
  field and any other value as \<open>str\<close> of it; a field that holds a comma, a double quote, a
  carriage return or a line feed is put in double quotes with its quotes doubled; the
  fields are joined by commas and the record ends with carriage return and line feed.
\<close>

definition csv_value :: "'f pylib \<Rightarrow> 'f pyval \<Rightarrow> string" where
  "csv_value L v = (case v of PNone \<Rightarrow> [] | _ \<Rightarrow> py_str L v)"

definition csv_field :: "string \<Rightarrow> string" where
  "csv_field s =
     (if list_ex (\<lambda>c. c = CHR '','' \<or> c = CHR 0x22 \<or> c = CHR 0x0D \<or> c = CHR 0x0A) s
      then [CHR 0x22] @ concat (map (\<lambda>c. if c = CHR 0x22 then [c, c] else [c]) s) @ [CHR 0x22]
      else s)"

definition csv_writerow :: "'f pylib \<Rightarrow> 'f pyval list \<Rightarrow> string" where
  "csv_writerow L row =
     str_join '','' (map (\<lambda>v. csv_field (csv_value L v)) row) @ [CHR 0x0D, CHR 0x0A]"

text \<open>
  A \<open>DictWriter\<close> run: \<open>writeheader()\<close>, then one \<open>writerow\<close> per row, in order; the value
  of the \<open>StringIO\<close> is the concatenation.
\<close>

definition csv_output :: "'f pylib \<Rightarrow> string list \<Rightarrow> 'f pyval list list \<Rightarrow> string" where
  "csv_output L fieldnames rows =
     csv_writerow L (map PStr fieldnames) @ concat (map (csv_writerow L) rows)"

text \<open>
  \<open>json.loads(invoice['items']) if isinstance(invoice['items'], str) else invoice['items']\<close>,
  followed by the start of the loop over the items.
\<close>

definition load_items :: "'f pylib \<Rightarrow> 'f pyval \<Rightarrow> py_error + 'f pyval" where
  "load_items L invoice =
     bnd (py_getitem invoice ''items'') (\<lambda>v.
       case v of PStr s \<Rightarrow> json_loads L s | _ \<Rightarrow> Inr v)"

definition items_of :: "'f pylib \<Rightarrow> 'f pyval \<Rightarrow> py_error + 'f pyval list" where
  "items_of L invoice = bnd (load_items L invoice) py_iter"

text \<open>
  \<open>float(invoice.get('vat', 0)) / 100 * float(invoice['subtotal']) if invoice.get('vat') else 0\<close>
  (line 101, and again inside the f-string of line 178).
\<close>

definition vat_amount :: "'f pylib \<Rightarrow> 'f pyval \<Rightarrow> py_error + 'f pyval" where
  "vat_amount L invoice =
     bnd (py_get invoice ''vat'' PNone) (\<lambda>cond.
       if py_truthy L cond then
         bnd (bnd (py_get invoice ''vat'' (PInt 0)) (py_float L)) (\<lambda>vat.
         bnd (bnd (py_getitem invoice ''subtotal'') (py_float L)) (\<lambda>subtotal.
           Inr (PFloat (float_mul L (float_div_int L vat 100) subtotal))))
       else Inr (PInt 0))"

subsection \<open>export\_to\_quickbooks\_iif\<close>

text \<open>
  Every line of the IIF text is a list of fields joined by tab characters; the f-strings
  of lines 41 and 46 are written as the lists of their fields. The two readings of
  \<open>datetime.now()\<close> in the \<open>HDR\<close> line are inputs of the model.
\<close>

definition tab_join :: "string list \<Rightarrow> string" where
  "tab_join fs = str_join [CHR 0x09] fs"

definition iif_hdr_columns :: string where
  "iif_hdr_columns =
     tab_join [''!HDR'', ''PROD'', ''VER'', ''REL'', ''IIFVER'', ''DATE'', ''TIME'', ''ACCNT'']"

definition iif_trns_columns :: string where
  "iif_trns_columns =
     tab_join [''!TRNS'', ''TRNSTYPE'', ''DATE'', ''ACCNT'', ''NAME'', ''CLASS'', ''AMOUNT'',
               ''DOCNUM'', ''MEMO'', ''CLEAR'', ''TOPRINT'', ''NAMEADDR1'', ''NAMEADDR2'',
               ''NAMEADDR3'', ''NAMEADDR4'', ''NAMEADDR5'', ''DUEDATE'', ''TERMS'', ''PAID'',
               ''SHIPDATE'']"

text \<open>Lines 29 to 34: the three lines written before the loop.\<close>

definition iif_header :: "'f pylib \<Rightarrow> datetime \<Rightarrow> datetime \<Rightarrow> string list" where
  "iif_header L now1 now2 =
     [iif_hdr_columns,
      tab_join [''HDR'', ''QuickBooks Pro'', ''2023'', ''Release'', ''1'',
                strftime L now1 ''%m/%d/%Y'', strftime L now2 ''%H:%M:%S'', ''N''],
      iif_trns_columns]"

text \<open>The fields of the \<open>TRNS\<close> line; the amount is field 6.\<close>

definition iif_trns_fields ::
  "'f pylib \<Rightarrow> 'f pyval \<Rightarrow> string \<Rightarrow> string \<Rightarrow> py_error + string list" where
  "iif_trns_fields L invoice date_str due_date_str =
     bnd (py_getitem invoice ''clientName'') (\<lambda>client_name.
     bnd (py_getitem invoice ''total'') (\<lambda>total.
     bnd (py_getitem invoice ''invoiceNumber'') (\<lambda>invoice_number.
     bnd (py_getitem invoice ''addressLine1'') (\<lambda>address_line1.
     bnd (py_getitem invoice ''city'') (\<lambda>city.
     bnd (py_getitem invoice ''country'') (\<lambda>country.
       Inr [''TRNS'', ''INVOICE'', date_str, ''Accounts Receivable'', py_str L client_name, [],
            py_str L total, py_str L invoice_number, [], ''N'', ''Y'', py_str L address_line1,
            py_str L city, py_str L country, [], [], due_date_str, ''Net 30'', ''N'', []]))))))"

text \<open>The fields of the \<open>SPL\<close> line of one item; the amount is field 5.\<close>

definition iif_spl_fields ::
  "'f pylib \<Rightarrow> 'f pyval \<Rightarrow> string \<Rightarrow> 'f pyval \<Rightarrow> py_error + string list" where
  "iif_spl_fields L invoice date_str item =
     bnd (py_getitem invoice ''clientName'') (\<lambda>client_name.
     bnd (py_getitem item ''amount'') (\<lambda>amount.
     bnd (py_getitem invoice ''invoiceNumber'') (\<lambda>invoice_number.
     bnd (py_getitem item ''name'') (\<lambda>name.
     bnd (py_get item ''description'' (PStr [])) (\<lambda>description.
       Inr [''SPL'', date_str, ''Sales'', py_str L client_name, [], ''-'' @ py_str L amount,
            py_str L invoice_number, py_str L name @ '': '' @ py_str L description,
            ''N'', ''Y''])))))"

text \<open>The body of the loop over the invoices (lines 37 to 46): the lines one invoice adds.\<close>

definition iif_invoice_records ::
  "'f pylib \<Rightarrow> 'f pyval \<Rightarrow> py_error + string list list" where
  "iif_invoice_records L invoice =
     bnd (parse_date L invoice ''invoiceDate'') (\<lambda>d.
     bnd (parse_date L invoice ''dueDate'') (\<lambda>due.
     bnd (iif_trns_fields L invoice (strftime L d ''%m/%d/%Y'') (strftime L due ''%m/%d/%Y''))
       (\<lambda>trns.
     bnd (items_of L invoice) (\<lambda>items.
     bnd (for_each (iif_spl_fields L invoice (strftime L d ''%m/%d/%Y'')) items) (\<lambda>spls.
       Inr (trns # spls))))))"

definition export_to_quickbooks_iif ::
  "'f pylib \<Rightarrow> datetime \<Rightarrow> datetime \<Rightarrow> 'f pyval list \<Rightarrow> py_error + string" where
  "export_to_quickbooks_iif L now1 now2 invoices =
     bnd (for_each (iif_invoice_records L) invoices) (\<lambda>records.
       Inr (str_join [CHR 0x0A]
              (iif_header L now1 now2 @ map tab_join (concat records) @ [''ENDTRNS''])))"

subsection \<open>export\_to\_xero\_csv\<close>

definition xero_fieldnames :: "string list" where
  "xero_fieldnames =
     [''ContactName'', ''EmailAddress'', ''POAddressLine1'', ''POCity'', ''POCountry'',
      ''InvoiceNumber'', ''InvoiceDate'', ''DueDate'', ''Total'', ''Status'',
      ''Description'', ''Quantity'', ''UnitAmount'', ''AccountCode'', ''TaxType'']"

definition xero_row :: "'f pylib \<Rightarrow> 'f pyval \<Rightarrow> 'f pyval \<Rightarrow> py_error + 'f pyval list" where
  "xero_row L invoice item =
     bnd (py_getitem invoice ''clientName'') (\<lambda>contact_name.
     bnd (py_getitem invoice ''clientEmail'') (\<lambda>email_address.
     bnd (py_getitem invoice ''addressLine1'') (\<lambda>address_line1.
     bnd (py_getitem invoice ''city'') (\<lambda>city.
     bnd (py_getitem invoice ''country'') (\<lambda>country.
     bnd (py_getitem invoice ''invoiceNumber'') (\<lambda>invoice_number.
     bnd (parse_date L invoice ''invoiceDate'') (\<lambda>d.
     bnd (parse_date L invoice ''dueDate'') (\<lambda>due.
     bnd (py_getitem invoice ''total'') (\<lambda>total.
     bnd (bnd (py_getitem invoice ''status'') py_upper) (\<lambda>status.
     bnd (py_getitem item ''name'') (\<lambda>name.
     bnd (py_get item ''description'' (PStr [])) (\<lambda>description.
     bnd (py_getitem item ''quantity'') (\<lambda>quantity.
     bnd (py_getitem item ''rate'') (\<lambda>rate.
       Inr [contact_name, email_address, address_line1, city, country, invoice_number,
            PStr (strftime L d ''%d/%m/%Y''), PStr (strftime L due ''%d/%m/%Y''), total,
            PStr status, PStr (py_str L name @ '': '' @ py_str L description), quantity, rate,
            PStr ''200'', PStr ''GST'']))))))))))))))"

definition xero_invoice_rows :: "'f pylib \<Rightarrow> 'f pyval \<Rightarrow> py_error + 'f pyval list list" where
  "xero_invoice_rows L invoice =
     bnd (items_of L invoice) (\<lambda>items. for_each (xero_row L invoice) items)"

definition export_to_xero_csv :: "'f pylib \<Rightarrow> 'f pyval list \<Rightarrow> py_error + string" where
  "export_to_xero_csv L invoices =
     bnd (for_each (xero_invoice_rows L) invoices) (\<lambda>rows.
       Inr (csv_output L xero_fieldnames (concat rows)))"

subsection \<open>export\_to\_sage\_csv\<close>

definition sage_fieldnames :: "string list" where
  "sage_fieldnames =
     [''Customer'', ''Invoice_No'', ''Date'', ''Due_Date'', ''Reference'', ''Description'',
      ''Net_Amount'', ''Tax_Amount'', ''Total_Amount'', ''Status'', ''Currency'']"

definition sage_row :: "'f pylib \<Rightarrow> 'f pyval \<Rightarrow> py_error + 'f pyval list" where
  "sage_row L invoice =
     bnd (vat_amount L invoice) (\<lambda>vat.
     bnd (py_getitem invoice ''clientName'') (\<lambda>customer.
     bnd (py_getitem invoice ''invoiceNumber'') (\<lambda>invoice_no.
     bnd (parse_date L invoice ''invoiceDate'') (\<lambda>d.
     bnd (parse_date L invoice ''dueDate'') (\<lambda>due.
     bnd (py_getitem invoice ''invoiceNumber'') (\<lambda>reference.
     bnd (py_getitem invoice ''clientName'') (\<lambda>client_name.
     bnd (py_getitem invoice ''subtotal'') (\<lambda>net_amount.
     bnd (py_format_2f L vat) (\<lambda>tax_amount.
     bnd (py_getitem invoice ''total'') (\<lambda>total_amount.
     bnd (bnd (py_getitem invoice ''status'') py_title) (\<lambda>status.
       Inr [customer, invoice_no, PStr (strftime L d ''%d/%m/%Y''),
            PStr (strftime L due ''%d/%m/%Y''), reference,
            PStr (''Invoice for '' @ py_str L client_name), net_amount, PStr tax_amount,
            total_amount, PStr status, PStr ''USD''])))))))))))"

definition export_to_sage_csv :: "'f pylib \<Rightarrow> 'f pyval list \<Rightarrow> py_error + string" where
  "export_to_sage_csv L invoices =
     bnd (for_each (sage_row L) invoices) (\<lambda>rows.
       Inr (csv_output L sage_fieldnames rows))"

subsection \<open>export\_to\_wave\_csv\<close>

definition wave_fieldnames :: "string list" where
  "wave_fieldnames =
     [''Customer name'', ''Customer email'', ''Invoice number'', ''Invoice date'', ''Due date'',
      ''Product/Service'', ''Description'', ''Quantity'', ''Rate'', ''Amount'', ''Tax name'',
      ''Tax rate'', ''Invoice total'', ''Invoice status'']"

text \<open>\<open>'VAT' if invoice.get('vat') and float(invoice['vat']) > 0 else ''\<close>.\<close>

definition wave_tax_name :: "'f pylib \<Rightarrow> 'f pyval \<Rightarrow> py_error + string" where
  "wave_tax_name L invoice =
     bnd (py_get invoice ''vat'' PNone) (\<lambda>cond.
       if py_truthy L cond then
         bnd (bnd (py_getitem invoice ''vat'') (py_float L)) (\<lambda>vat.
           Inr (if float_pos L vat then ''VAT'' else []))
       else Inr [])"

text \<open>\<open>f"{invoice.get('vat', 0)}%" if invoice.get('vat') else ''\<close>.\<close>

definition wave_tax_rate :: "'f pylib \<Rightarrow> 'f pyval \<Rightarrow> py_error + string" where
  "wave_tax_rate L invoice =
     bnd (py_get invoice ''vat'' PNone) (\<lambda>cond.
       if py_truthy L cond then
         bnd (py_get invoice ''vat'' (PInt 0)) (\<lambda>vat. Inr (py_str L vat @ ''%''))
       else Inr [])"

text \<open>
  The row of item \<open>i\<close> of an invoice. The invoice total (field 12) is looked up and written
  when \<open>i = 0\<close>; every other row gets the empty string.
\<close>

definition wave_row ::
  "'f pylib \<Rightarrow> 'f pyval \<Rightarrow> nat \<times> 'f pyval \<Rightarrow> py_error + 'f pyval list" where
  "wave_row L invoice indexed_item =
     (let i = fst indexed_item; item = snd indexed_item in
     bnd (py_getitem invoice ''clientName'') (\<lambda>customer_name.
     bnd (py_getitem invoice ''clientEmail'') (\<lambda>customer_email.
     bnd (py_getitem invoice ''invoiceNumber'') (\<lambda>invoice_number.
     bnd (parse_date L invoice ''invoiceDate'') (\<lambda>d.
     bnd (parse_date L invoice ''dueDate'') (\<lambda>due.
     bnd (py_getitem item ''name'') (\<lambda>product.
     bnd (py_get item ''description'' (PStr [])) (\<lambda>description.
     bnd (py_getitem item ''quantity'') (\<lambda>quantity.
     bnd (bnd (py_getitem item ''rate'') (py_format_2f L)) (\<lambda>rate.
     bnd (bnd (py_getitem item ''amount'') (py_format_2f L)) (\<lambda>amount.
     bnd (wave_tax_name L invoice) (\<lambda>tax_name.
     bnd (wave_tax_rate L invoice) (\<lambda>tax_rate.
     bnd (if i = 0 then py_getitem invoice ''total'' else Inr (PStr [])) (\<lambda>invoice_total.
     bnd (bnd (py_getitem invoice ''status'') py_title) (\<lambda>status.
       Inr [customer_name, customer_email, invoice_number,
            PStr (strftime L d ''%Y-%m-%d''), PStr (strftime L due ''%Y-%m-%d''),
            product, description, quantity, PStr rate, PStr amount, PStr tax_name,
            PStr tax_rate, invoice_total, PStr status])))))))))))))))"

definition wave_invoice_rows :: "'f pylib \<Rightarrow> 'f pyval \<Rightarrow> py_error + 'f pyval list list" where
  "wave_invoice_rows L invoice =
     bnd (items_of L invoice) (\<lambda>items. for_each (wave_row L invoice) (enumerate 0 items))"

definition export_to_wave_csv :: "'f pylib \<Rightarrow> 'f pyval list \<Rightarrow> py_error + string" where
  "export_to_wave_csv L invoices =
     bnd (for_each (wave_invoice_rows L) invoices) (\<lambda>rows.
       Inr (csv_output L wave_fieldnames (concat rows)))"

subsection \<open>export\_to\_generic\_csv\<close>

definition generic_fieldnames :: "string list" where
  "generic_fieldnames =
     [''Invoice Number'', ''Client Name'', ''Client Email'', ''Invoice Date'', ''Due Date'',
      ''Subtotal'', ''Discount'', ''Tax Rate'', ''Tax Amount'', ''Total'', ''Status'', ''Notes'',
      ''Items JSON'']"

text \<open>
  \<open>invoice['items'] if isinstance(invoice['items'], str) else json.dumps(invoice['items'])\<close>:
  a string is written as it came.
\<close>

definition items_json :: "'f pylib \<Rightarrow> 'f pyval \<Rightarrow> py_error + 'f pyval" where
  "items_json L invoice =
     bnd (py_getitem invoice ''items'') (\<lambda>v.
       case v of PStr s \<Rightarrow> Inr (PStr s) | _ \<Rightarrow> Inr (PStr (json_dumps L v)))"

definition generic_row :: "'f pylib \<Rightarrow> 'f pyval \<Rightarrow> py_error + 'f pyval list" where
  "generic_row L invoice =
     bnd (py_getitem invoice ''invoiceNumber'') (\<lambda>invoice_number.
     bnd (py_getitem invoice ''clientName'') (\<lambda>client_name.
     bnd (py_getitem invoice ''clientEmail'') (\<lambda>client_email.
     bnd (parse_date L invoice ''invoiceDate'') (\<lambda>d.
     bnd (parse_date L invoice ''dueDate'') (\<lambda>due.
     bnd (py_getitem invoice ''subtotal'') (\<lambda>subtotal.
     bnd (py_get invoice ''discount'' (PStr ''0'')) (\<lambda>discount.
     bnd (py_get invoice ''vat'' (PStr ''0'')) (\<lambda>tax_rate.
     bnd (bnd (vat_amount L invoice) (py_format_2f L)) (\<lambda>tax_amount.
     bnd (py_getitem invoice ''total'') (\<lambda>total.
     bnd (bnd (py_getitem invoice ''status'') py_title) (\<lambda>status.
     bnd (py_get invoice ''notes'' (PStr [])) (\<lambda>notes.
     bnd (items_json L invoice) (\<lambda>items.
       Inr [invoice_number, client_name, client_email,
            PStr (strftime L d ''%Y-%m-%d''), PStr (strftime L due ''%Y-%m-%d''),
            subtotal, discount, PStr (py_str L tax_rate @ ''%''), PStr tax_amount, total,
            PStr status, notes, items])))))))))))))"

definition export_to_generic_csv :: "'f pylib \<Rightarrow> 'f pyval list \<Rightarrow> py_error + string" where
  "export_to_generic_csv L invoices =
     bnd (for_each (generic_row L) invoices) (\<lambda>rows.
       Inr (csv_output L generic_fieldnames rows))"

subsection \<open>export\_invoices\<close>

definition supported_formats :: "string list" where
  "supported_formats =
     [''quickbooks_iif'', ''xero_csv'', ''sage_csv'', ''freshbooks_csv'', ''wave_csv'',
      ''generic_csv'']"

definition export_invoices ::
  "'f pylib \<Rightarrow> datetime \<Rightarrow> datetime \<Rightarrow> 'f pyval list \<Rightarrow> string \<Rightarrow> py_error + string" where
  "export_invoices L now1 now2 invoices format_type =
     (if format_type \<notin> set supported_formats
      then Inl (ValueError (''Unsupported format: '' @ format_type))
      else if format_type = ''quickbooks_iif'' then export_to_quickbooks_iif L now1 now2 invoices
      else if format_type = ''xero_csv'' then export_to_xero_csv L invoices
      else if format_type = ''sage_csv'' then export_to_sage_csv L invoices
      else if format_type = ''wave_csv'' then export_to_wave_csv L invoices
      else if format_type = ''generic_csv'' then export_to_generic_csv L invoices
      else export_to_generic_csv L invoices)"

section \<open>A reference instance of the library\<close>

text \<open>
  The closed examples below need one concrete library. \<open>L0\<close> follows the documented behaviour
  of Python's functions on the inputs the examples use: ISO dates of the form
  \<open>YYYY-MM-DD\<close>, optionally followed by a separator, \<open>HH:MM:SS\<close>, a fraction of three or six
  digits and a UTC offset \<open>+HH:MM\<close> or \<open>-HH:MM\<close>; JSON texts without exponents and without
  \<open>\u\<close> escapes; floats as exact fractions (numerator, positive denominator) in place of
  binary floating point. No general theorem depends on \<open>L0\<close>.
\<close>

type_synonym frac = "int \<times> int"

subsection \<open>Dates\<close>

definition days_in_month :: "nat \<Rightarrow> nat \<Rightarrow> nat" where
  "days_in_month y m =
     (if m = 2 then (if y mod 4 = 0 \<and> (y mod 100 \<noteq> 0 \<or> y mod 400 = 0) then 29 else 28)
      else if m = 4 \<or> m = 6 \<or> m = 9 \<or> m = 11 then 30 else 31)"

definition iso_error :: "string \<Rightarrow> py_error + 'a" where
  "iso_error s = Inl (ValueError (''Invalid isoformat string: '' @ [CHR 0x27] @ s @ [CHR 0x27]))"

definition iso_offset_ok :: "string \<Rightarrow> bool" where
  "iso_offset_ok r =
     (r = [] \<or>
      (length r = 6 \<and> (r ! 0 = CHR ''+'' \<or> r ! 0 = CHR ''-'') \<and> r ! 3 = CHR '':'' \<and>
       parse_nat (take 2 (drop 1 r)) \<noteq> None \<and> parse_nat (drop 4 r) \<noteq> None))"

definition iso_tail_ok :: "string \<Rightarrow> bool" where
  "iso_tail_ok r =
     (case r of
        [] \<Rightarrow> True
      | c # cs \<Rightarrow>
          if c = CHR ''.'' then
            (let n = length (takeWhile (\<lambda>x. digit_of x \<noteq> None) cs) in
               (n = 3 \<or> n = 6) \<and> iso_offset_ok (drop n cs))
          else iso_offset_ok r)"

definition fromisoformat0 :: "string \<Rightarrow> py_error + datetime" where
  "fromisoformat0 s =
     (if 10 \<le> length s \<and> s ! 4 = CHR ''-'' \<and> s ! 7 = CHR ''-'' then
        (case (parse_nat (take 4 s), parse_nat (take 2 (drop 5 s)), parse_nat (take 2 (drop 8 s))) of
           (Some y, Some m, Some d) \<Rightarrow>
             if y < 1 then Inl (ValueError ''year 0 is out of range'')
             else if m < 1 \<or> 12 < m then Inl (ValueError ''month must be in 1..12'')
             else if d < 1 \<or> days_in_month y m < d
               then Inl (ValueError ''day is out of range for month'')
             else
               (case drop 10 s of
                  [] \<Rightarrow> Inr \<lparr>year = y, month = m, day = d, hour = 0, minute = 0, second = 0\<rparr>
                | sep # t \<Rightarrow>
                    if 8 \<le> length t \<and> t ! 2 = CHR '':'' \<and> t ! 5 = CHR '':'' \<and> iso_tail_ok (drop 8 t)
                    then
                      (case (parse_nat (take 2 t), parse_nat (take 2 (drop 3 t)),
                             parse_nat (take 2 (drop 6 t))) of
                         (Some h, Some mi, Some se) \<Rightarrow>
                           if 23 < h then Inl (ValueError ''hour must be in 0..23'')
                           else if 59 < mi then Inl (ValueError ''minute must be in 0..59'')
                           else if 59 < se then Inl (ValueError ''second must be in 0..59'')
                           else Inr \<lparr>year = y, month = m, day = d,
                                     hour = h, minute = mi, second = se\<rparr>
                       | _ \<Rightarrow> iso_error s)
                    else iso_error s)
         | _ \<Rightarrow> iso_error s)
      else iso_error s)"

definition pad2 :: "nat \<Rightarrow> string" where
  "pad2 n = (if n < 10 then CHR ''0'' # show_nat n else show_nat n)"

text \<open>The directives the program uses; the year is printed as the C library of Linux does.\<close>

definition strftime_directive :: "datetime \<Rightarrow> char \<Rightarrow> string" where
  "strftime_directive d k =
     (if k = CHR ''Y'' then show_nat (year d)
      else if k = CHR ''m'' then pad2 (month d)
      else if k = CHR ''d'' then pad2 (day d)
      else if k = CHR ''H'' then pad2 (hour d)
      else if k = CHR ''M'' then pad2 (minute d)
      else if k = CHR ''S'' then pad2 (second d)
      else [CHR ''%'', k])"

fun strftime0 :: "datetime \<Rightarrow> string \<Rightarrow> string" where
  "strftime0 d [] = []"
| "strftime0 d [c] = [c]"
| "strftime0 d (c # k # cs) =
     (if c = CHR ''%'' then strftime_directive d k @ strftime0 d cs
      else c # strftime0 d (k # cs))"

subsection \<open>Floats as exact fractions\<close>

definition frac_of_str :: "string \<Rightarrow> py_error + frac" where
  "frac_of_str s =
     (let neg = (take 1 s = ''-'');
          body = (if neg then drop 1 s else s);
          ip = takeWhile (\<lambda>c. c \<noteq> CHR ''.'') body;
          dot = dropWhile (\<lambda>c. c \<noteq> CHR ''.'') body;
          fp = drop 1 dot;
          sg = (if neg then - 1 else 1 :: int);
          err = Inl (ValueError (''could not convert string to float: '' @ [CHR 0x27] @ s @ [CHR 0x27]))
      in case parse_nat ip of
           None \<Rightarrow> err
         | Some a \<Rightarrow>
             if dot = [] then Inr (sg * int a, 1)
             else (case parse_nat fp of
                     None \<Rightarrow> err
                   | Some b \<Rightarrow> Inr (sg * (int a * 10 ^ length fp + int b), 10 ^ length fp)))"

definition frac_div_int :: "frac \<Rightarrow> int \<Rightarrow> frac" where
  "frac_div_int x n = (if n < 0 then (- fst x, snd x * (- n)) else (fst x, snd x * n))"

definition frac_mul :: "frac \<Rightarrow> frac \<Rightarrow> frac" where
  "frac_mul x y = (fst x * fst y, snd x * snd y)"

text \<open>Two decimals, a tie rounded to the even neighbour: first the hundredths.\<close>

definition frac_cents :: "frac \<Rightarrow> nat" where
  "frac_cents x =
     (let q = (100 * \<bar>fst x\<bar>) div snd x; r = (100 * \<bar>fst x\<bar>) mod snd x
      in nat (if snd x < 2 * r \<or> (2 * r = snd x \<and> odd q) then q + 1 else q))"

definition frac_format_2f :: "frac \<Rightarrow> string" where
  "frac_format_2f x =
     (if fst x < 0 then ''-'' else []) @ show_nat (frac_cents x div 100) @ ''.''
       @ [''0123456789'' ! (frac_cents x mod 100 div 10), ''0123456789'' ! (frac_cents x mod 10)]"

fun frac_digits :: "nat \<Rightarrow> nat \<Rightarrow> nat \<Rightarrow> string" where
  "frac_digits 0 r b = []"
| "frac_digits (Suc k) r b =
     (if r = 0 then [] else (''0123456789'' ! (10 * r div b)) # frac_digits k (10 * r mod b) b)"

definition frac_repr :: "frac \<Rightarrow> string" where
  "frac_repr x =
     (let a = nat \<bar>fst x\<bar>; b = nat (snd x); ds = frac_digits 16 (a mod b) b
      in (if fst x < 0 then ''-'' else []) @ show_nat (a div b) @ ''.''
           @ (if ds = [] then ''0'' else ds))"

subsection \<open>repr and JSON\<close>

definition repr_str :: "string \<Rightarrow> string" where
  "repr_str s =
     (let q = (if CHR 0x27 \<in> set s \<and> CHR 0x22 \<notin> set s then CHR 0x22 else CHR 0x27)
      in [q] @ concat (map (\<lambda>c. if c = CHR 0x5C \<or> c = q then [CHR 0x5C, c]
                                else if c = CHR 0x0A then [CHR 0x5C, CHR ''n'']
                                else if c = CHR 0x0D then [CHR 0x5C, CHR ''r'']
                                else if c = CHR 0x09 then [CHR 0x5C, CHR ''t'']
                                else [c]) s) @ [q])"

fun py_repr0 :: "frac pyval \<Rightarrow> string" where
  "py_repr0 PNone = ''None''"
| "py_repr0 (PBool b) = (if b then ''True'' else ''False'')"
| "py_repr0 (PInt n) = show_int n"
| "py_repr0 (PFloat x) = frac_repr x"
| "py_repr0 (PStr s) = repr_str s"
| "py_repr0 (PList xs) = ''['' @ str_join '', '' (map py_repr0 xs) @ '']''"
| "py_repr0 (PDict d) =
     ''{'' @ str_join '', '' (map (\<lambda>kv. repr_str (fst kv) @ '': '' @ py_repr0 (snd kv)) d) @ ''}''"

definition json_quote :: "string \<Rightarrow> string" where
  "json_quote s =
     [CHR 0x22] @ concat (map (\<lambda>c. if c = CHR 0x5C \<or> c = CHR 0x22 then [CHR 0x5C, c]
                                   else if c = CHR 0x0A then [CHR 0x5C, CHR ''n'']
                                   else if c = CHR 0x0D then [CHR 0x5C, CHR ''r'']
                                   else if c = CHR 0x09 then [CHR 0x5C, CHR ''t'']
                                   else [c]) s) @ [CHR 0x22]"

fun json_dumps0 :: "frac pyval \<Rightarrow> string" where
  "json_dumps0 PNone = ''null''"
| "json_dumps0 (PBool b) = (if b then ''true'' else ''false'')"
| "json_dumps0 (PInt n) = show_int n"
| "json_dumps0 (PFloat x) = frac_repr x"
| "json_dumps0 (PStr s) = json_quote s"
| "json_dumps0 (PList xs) = ''['' @ str_join '', '' (map json_dumps0 xs) @ '']''"
| "json_dumps0 (PDict d) =
     ''{'' @ str_join '', '' (map (\<lambda>kv. json_quote (fst kv) @ '': '' @ json_dumps0 (snd kv)) d) @ ''}''"

definition skip_ws :: "string \<Rightarrow> string" where
  "skip_ws s = dropWhile (\<lambda>c. c = CHR '' '' \<or> c = CHR 0x09 \<or> c = CHR 0x0A \<or> c = CHR 0x0D) s"

definition json_unescape :: "char \<Rightarrow> char option" where
  "json_unescape e =
     map_of [(CHR 0x22, CHR 0x22), (CHR 0x5C, CHR 0x5C), (CHR ''/'', CHR ''/''),
             (CHR ''n'', CHR 0x0A), (CHR ''r'', CHR 0x0D), (CHR ''t'', CHR 0x09)] e"

fun json_string_body :: "string \<Rightarrow> (string \<times> string) option" where
  "json_string_body [] = None"
| "json_string_body (c # cs) =
     (if c = CHR 0x22 then Some ([], cs)
      else if c = CHR 0x5C then
        (case cs of
           [] \<Rightarrow> None
         | e # cs' \<Rightarrow>
             (case json_unescape e of
                None \<Rightarrow> None
              | Some x \<Rightarrow> map_option (\<lambda>sr. (x # fst sr, snd sr)) (json_string_body cs')))
      else map_option (\<lambda>sr. (c # fst sr, snd sr)) (json_string_body cs))"

definition json_number :: "string \<Rightarrow> (frac pyval \<times> string) option" where
  "json_number s =
     (let neg = (take 1 s = ''-'');
          body = (if neg then drop 1 s else s);
          ip = takeWhile (\<lambda>c. digit_of c \<noteq> None) body;
          r1 = dropWhile (\<lambda>c. digit_of c \<noteq> None) body;
          sg = (if neg then - 1 else 1 :: int)
      in case parse_nat ip of
           None \<Rightarrow> None
         | Some a \<Rightarrow>
             if take 1 r1 = ''.'' then
               (let fp = takeWhile (\<lambda>c. digit_of c \<noteq> None) (drop 1 r1);
                    r2 = dropWhile (\<lambda>c. digit_of c \<noteq> None) (drop 1 r1)
                in case parse_nat fp of
                     None \<Rightarrow> None
                   | Some b \<Rightarrow>
                       Some (PFloat (sg * (int a * 10 ^ length fp + int b), 10 ^ length fp), r2))
             else Some (PInt (sg * int a), r1))"

text \<open>
  A recursive-descent reader. The first argument bounds the number of nested calls; twice
  the length of the text is always enough, since every second call reads a character.
\<close>

fun json_value :: "string \<Rightarrow> string \<Rightarrow> (frac pyval \<times> string) option"
  and json_elements :: "string \<Rightarrow> string \<Rightarrow> (frac pyval list \<times> string) option"
  and json_members :: "string \<Rightarrow> string \<Rightarrow> ((string \<times> frac pyval) list \<times> string) option"
where
  "json_value [] s = None"
| "json_value (f # fuel) s =
     (case skip_ws s of
        [] \<Rightarrow> None
      | c # cs \<Rightarrow>
          if c = CHR ''['' then
            (if take 1 (skip_ws cs) = '']'' then Some (PList [], drop 1 (skip_ws cs))
             else map_option (\<lambda>xr. (PList (fst xr), snd xr)) (json_elements fuel cs))
          else if c = CHR ''{'' then
            (if take 1 (skip_ws cs) = ''}'' then Some (PDict [], drop 1 (skip_ws cs))
             else map_option (\<lambda>xr. (PDict (fst xr), snd xr)) (json_members fuel cs))
          else if c = CHR 0x22 then
            map_option (\<lambda>xr. (PStr (fst xr), snd xr)) (json_string_body cs)
          else if take 4 (c # cs) = ''null'' then Some (PNone, drop 4 (c # cs))
          else if take 4 (c # cs) = ''true'' then Some (PBool True, drop 4 (c # cs))
          else if take 5 (c # cs) = ''false'' then Some (PBool False, drop 5 (c # cs))
          else json_number (c # cs))"
| "json_elements [] s = None"
| "json_elements (f # fuel) s =
     (case json_value fuel s of
        None \<Rightarrow> None
      | Some (v, r) \<Rightarrow>
          (case skip_ws r of
             [] \<Rightarrow> None
           | c # cs \<Rightarrow>
               if c = CHR '','' then
                 map_option (\<lambda>xr. (v # fst xr, snd xr)) (json_elements fuel cs)
               else if c = CHR '']'' then Some ([v], cs)
               else None))"
| "json_members [] s = None"
| "json_members (f # fuel) s =
     (case skip_ws s of
        [] \<Rightarrow> None
      | q # cs \<Rightarrow>
          if q \<noteq> CHR 0x22 then None
          else
            (case json_string_body cs of
               None \<Rightarrow> None
             | Some (k, r) \<Rightarrow>
                 (case skip_ws r of
                    [] \<Rightarrow> None
                  | colon # r2 \<Rightarrow>
                      if colon \<noteq> CHR '':'' then None
                      else
                        (case json_value fuel r2 of
                           None \<Rightarrow> None
                         | Some (v, r3) \<Rightarrow>
                             (case skip_ws r3 of
                                [] \<Rightarrow> None
                              | c # cs' \<Rightarrow>
                                  if c = CHR '','' then
                                    map_option (\<lambda>xr. ((k, v) # fst xr, snd xr))
                                      (json_members fuel cs')
                                  else if c = CHR ''}'' then Some ([(k, v)], cs')
                                  else None)))))"

definition json_loads0 :: "string \<Rightarrow> py_error + frac pyval" where
  "json_loads0 s =
     (case json_value (CHR ''x'' # s @ s) s of
        None \<Rightarrow> Inl (ValueError ''Expecting value'')
      | Some (v, r) \<Rightarrow> if skip_ws r = [] then Inr v else Inl (ValueError ''Extra data''))"

definition L0 :: "frac pylib" where
  "L0 = \<lparr>fromisoformat = fromisoformat0,
         strftime = strftime0,
         json_loads = json_loads0,
         json_dumps = json_dumps0,
         float_of_int = (\<lambda>n. Inr (n, 1)),
         float_of_str = frac_of_str,
         float_div_int = frac_div_int,
         float_mul = frac_mul,
         float_pos = (\<lambda>x. 0 < fst x),
         float_nonzero = (\<lambda>x. fst x \<noteq> 0),
         format_2f = frac_format_2f,
         repr_float = frac_repr,
         repr_container = py_repr0\<rparr>"

subsection \<open>Well-formed items and example data\<close>

text \<open>
  The keys of the dictionary \<open>process_table_rows\<close> builds for an item, and the items for
  which building it cannot raise: dictionaries whose rate and amount \<open>float\<close> accepts.
\<close>

definition item_keys :: "string list" where
  "item_keys = [''item_name'', ''item_description'', ''item_quantity'', ''item_rate'', ''item_amount'']"

definition float_ok :: "'f pylib \<Rightarrow> 'f pyval \<Rightarrow> bool" where
  "float_ok L v = (case py_float L v of Inr x \<Rightarrow> True | Inl e \<Rightarrow> False)"

definition valid_item :: "'f pylib \<Rightarrow> 'f pyval \<Rightarrow> bool" where
  "valid_item L item =
     (case item of
        PDict d \<Rightarrow>
          float_ok L (case map_of d ''rate'' of Some v \<Rightarrow> v | None \<Rightarrow> PInt 0) \<and>
          float_ok L (case map_of d ''amount'' of Some v \<Rightarrow> v | None \<Rightarrow> PInt 0)
      | _ \<Rightarrow> False)"

definition example_item :: "frac pyval" where
  "example_item =
     PDict [(''name'', PStr ''Widget''), (''quantity'', PInt 2), (''rate'', PInt 50),
            (''amount'', PInt 100)]"

definition example_table :: table where
  "example_table =
     \<lparr>ncols = 2,
      cells = [[''Item'', ''Amount''], [''{{item_name}}'', ''{{item_amount}} of {{total}}'']]\<rparr>"

definition example_rendered :: table where
  "example_rendered =
     \<lparr>ncols = 2,
      cells = [[''Item'', ''Amount''], [''{{item_name}}'', ''{{item_amount}} of {{total}}''],
               [''Widget'', ''$100.00 of {{total}}'']]\<rparr>"

definition example_table_stale :: table where
  "example_table_stale =
     \<lparr>ncols = 2,
      cells = [[''Item'', ''Amount''], [''{{item_name}}'', ''{{item_amount}}''],
               [''Sample'', ''$1.00'']]\<rparr>"

text \<open>
  What the properties of the export speak of: an invoice whose two dates
  \<open>fromisoformat\<close> accepts, the integer a field of digits stands for, and the invoices of
  the closed examples (the first is the example invoice of the specification, with dates).
\<close>

definition date_ok :: "'f pylib \<Rightarrow> 'f pyval \<Rightarrow> string \<Rightarrow> bool" where
  "date_ok L invoice key = (case parse_date L invoice key of Inr d \<Rightarrow> True | Inl e \<Rightarrow> False)"

definition dates_ok :: "'f pylib \<Rightarrow> 'f pyval \<Rightarrow> bool" where
  "dates_ok L invoice = (date_ok L invoice ''invoiceDate'' \<and> date_ok L invoice ''dueDate'')"



definition example_fields :: "(string \<times> frac pyval) list" where
  "example_fields =
     [(''invoiceNumber'', PStr ''INV-1''), (''clientName'', PStr ''Acme''),
      (''clientEmail'', PStr ''ap@acme.example''), (''addressLine1'', PStr ''1 Main St''),
      (''city'', PStr ''Springfield''), (''country'', PStr ''US''),
      (''invoiceDate'', PStr ''2024-03-15T10:30:00.000Z''),
      (''dueDate'', PStr ''2024-04-14T10:30:00.000Z''),
      (''subtotal'', PInt 100), (''vat'', PInt 10), (''total'', PInt 110),
      (''status'', PStr ''sent'')]"

definition example_invoice :: "frac pyval" where
  "example_invoice = PDict (AList.update ''items'' (PList [example_item]) example_fields)"

definition example_invoice2 :: "frac pyval" where
  "example_invoice2 =
     PDict (AList.update ''items'' (PList [example_item, example_item]) example_fields)"

definition bad_invoice :: "frac pyval" where
  "bad_invoice =
     PDict (AList.update ''invoiceNumber'' (PStr ''INV-2'')
             (AList.update ''invoiceDate'' (PStr ''not-a-date'')
               (AList.update ''items'' (PList [example_item]) example_fields)))"

definition clock1 :: datetime where
  "clock1 = \<lparr>year = 2024, month = 5, day = 2, hour = 9, minute = 0, second = 0\<rparr>"

definition clock2 :: datetime where
  "clock2 = \<lparr>year = 2024, month = 5, day = 2, hour = 9, minute = 0, second = 30\<rparr>"

section \<open>Properties of the template processor\<close>

subsection \<open>Sequencing\<close>

lemma bnd_Inr_iff: "bnd m f = Inr y \<longleftrightarrow> (\<exists>x. m = Inr x \<and> f x = Inr y)"
  by (cases m) (simp_all add: bnd_def)

lemma bnd_Inl [simp]: "bnd (Inl e) f = Inl e"
  by (simp add: bnd_def)

lemma bnd_Inr [simp]: "bnd (Inr x) f = f x"
  by (simp add: bnd_def)

lemma for_each_Inr_iff:
  "for_each f xs = Inr ys \<longleftrightarrow> list_all2 (\<lambda>x y. f x = Inr y) xs ys"
proof (induction xs arbitrary: ys)
  case Nil
  show ?case by auto
next
  case (Cons x xs)
  show ?case
    by (cases ys) (auto simp: bnd_Inr_iff Cons.IH)
qed

lemma for_each_length: "for_each f xs = Inr ys \<Longrightarrow> length ys = length xs"
  by (simp add: for_each_Inr_iff list_all2_lengthD)

lemma for_each_nth:
  "for_each f xs = Inr ys \<Longrightarrow> i < length xs \<Longrightarrow> f (xs ! i) = Inr (ys ! i)"
  by (auto simp: for_each_Inr_iff dest: list_all2_nthD)

lemma for_each_total:
  "(\<And>x. x \<in> set xs \<Longrightarrow> \<exists>y. f x = Inr y) \<Longrightarrow> \<exists>ys. for_each f xs = Inr ys"
proof (induction xs)
  case Nil
  show ?case by simp
next
  case (Cons x xs)
  then obtain y ys where "f x = Inr y" and "for_each f xs = Inr ys"
    by (meson list.set_intros)
  then show ?case by simp
qed


subsection \<open>Token substitution\<close>

lemma not_word_open: "\<not> is_word_char CHR ''{''"
  by (simp add: is_word_char_def)

lemma not_word_close: "\<not> is_word_char CHR ''}''"
  by (simp add: is_word_char_def)

lemma match_token_at_token:
  assumes "name \<noteq> []" and "list_all is_word_char name"
  shows "match_token (''{{'' @ name @ ''}}'' @ post) = Some (name, post)"
proof -
  have tw: "takeWhile is_word_char (name @ CHR ''}'' # CHR ''}'' # post) = name"
    using assms(2) by (simp add: list_all_iff not_word_close)
  have dw: "dropWhile is_word_char (name @ CHR ''}'' # CHR ''}'' # post)
              = CHR ''}'' # CHR ''}'' # post"
    using assms(2) by (simp add: list_all_iff not_word_close)
  show ?thesis
    using assms(1) by (simp add: match_token_def tw dw)
qed

lemma match_token_before_token:
  "match_token ((c # cs) @ CHR ''{'' # CHR ''{'' # t) =
     (case match_token (c # cs) of
        Some (n, r) \<Rightarrow> Some (n, r @ CHR ''{'' # CHR ''{'' # t)
      | None \<Rightarrow> None)"
proof (cases cs)
  case Nil
  then show ?thesis by (simp add: match_token_def not_word_open)
next
  case (Cons c2 r0)
  show ?thesis
  proof (cases "\<forall>x \<in> set r0. is_word_char x")
    case True
    have f1: "takeWhile is_word_char (r0 @ CHR ''{'' # CHR ''{'' # t) = r0"
      using True by (simp add: not_word_open)
    have f2: "dropWhile is_word_char (r0 @ CHR ''{'' # CHR ''{'' # t) = CHR ''{'' # CHR ''{'' # t"
      using True by (simp add: not_word_open)
    have f3: "takeWhile is_word_char r0 = r0"
      using True by (simp add: takeWhile_eq_all_conv)
    have f4: "dropWhile is_word_char r0 = []"
      using True by simp
    show ?thesis
      by (simp add: Cons match_token_def f1 f2 f3 f4)
  next
    case False
    then have tw: "takeWhile is_word_char (r0 @ CHR ''{'' # CHR ''{'' # t) = takeWhile is_word_char r0"
      and dw: "dropWhile is_word_char (r0 @ CHR ''{'' # CHR ''{'' # t)
               = dropWhile is_word_char r0 @ CHR ''{'' # CHR ''{'' # t"
      by (auto simp: takeWhile_append1 dropWhile_append1)
    from False have ne: "dropWhile is_word_char r0 \<noteq> []" by auto
    show ?thesis
    proof (cases "dropWhile is_word_char r0")
      case Nil
      with ne show ?thesis by simp
    next
      case (Cons d1 ds)
      note d = this
      show ?thesis
      proof (cases ds)
        case Nil
        with d tw dw \<open>cs = c2 # r0\<close> show ?thesis by (simp add: match_token_def)
      next
        case (Cons d2 rest)
        with d tw dw \<open>cs = c2 # r0\<close> show ?thesis by (simp add: match_token_def)
      qed
    qed
  qed
qed

lemma re_sub_tokens_around_token:
  assumes "name \<noteq> []" and "list_all is_word_char name"
  shows "re_sub_tokens repl (pre @ ''{{'' @ name @ ''}}'' @ post) =
         re_sub_tokens repl pre @ repl name @ re_sub_tokens repl post"
proof (induction repl pre rule: re_sub_tokens.induct)
  case (1 repl)
  have "match_token (CHR ''{'' # CHR ''{'' # name @ ''}}'' @ post) = Some (name, post)"
    using match_token_at_token [OF assms, of post] by simp
  then show ?case by simp
next
  case (2 repl c cs)
  let ?T = "name @ CHR ''}'' # CHR ''}'' # post"
  have m: "match_token ((c # cs) @ CHR ''{'' # CHR ''{'' # ?T) =
     (case match_token (c # cs) of
        Some (n, r) \<Rightarrow> Some (n, r @ CHR ''{'' # CHR ''{'' # ?T)
      | None \<Rightarrow> None)"
    by (rule match_token_before_token)
  show ?case
  proof (cases "match_token (c # cs)")
    case None
    with m have "match_token (c # cs @ CHR ''{'' # CHR ''{'' # ?T) = None" by simp
    with None "2.IH" show ?thesis by simp
  next
    case (Some a)
    obtain n r where a: "a = (n, r)" by (cases a)
    with m Some have "match_token (c # cs @ CHR ''{'' # CHR ''{'' # ?T)
        = Some (n, r @ CHR ''{'' # CHR ''{'' # ?T)" by simp
    with Some a "2.IH" show ?thesis by simp
  qed
qed

lemma replace_is_re_sub:
  "replace_template_variables L text data = re_sub_tokens (replace_var L data) text"
  by (simp add: replace_template_variables_def)

lemma replace_around_token:
  assumes "name \<noteq> []" and "list_all is_word_char name"
  shows "replace_template_variables L (pre @ ''{{'' @ name @ ''}}'' @ post) data =
         replace_template_variables L pre data @ replace_var L data name
           @ replace_template_variables L post data"
  unfolding replace_is_re_sub by (rule re_sub_tokens_around_token [OF assms])

text \<open>
  C7. An occurrence of a token \<open>{{name}}\<close> whose name has no entry in the mapping is left in
  the output as it is written, braces included, wherever it stands in the text: the text
  before it and the text after it are substituted on their own, and nothing is dropped or
  raised.
\<close>

theorem unknown_token_left_verbatim:
  assumes "name \<noteq> []" and "list_all is_word_char name"
    and "map_of data name = None"
  shows "replace_template_variables L (pre @ ''{{'' @ name @ ''}}'' @ post) data =
         replace_template_variables L pre data @ ''{{'' @ name @ ''}}''
           @ replace_template_variables L post data"
  using replace_around_token [OF assms(1,2), of L pre post data] assms(3)
  by (simp add: replace_var_def py_str_def)

theorem unknown_token_left_verbatim_witness:
  "map_of [(''total'', PStr ''$110.00'')] ''unknownField'' = None \<and>
   replace_template_variables L0 ''Ref {{unknownField}} of {{total}}''
       [(''total'', PStr ''$110.00'')]
     = ''Ref {{unknownField}} of $110.00''"
proof -
  let ?data = "[(''total'', PStr ''$110.00'')] :: (string \<times> frac pyval) list"
  have "replace_template_variables L0 (''Ref '' @ ''{{'' @ ''unknownField'' @ ''}}'' @ '' of {{total}}'') ?data
        = replace_template_variables L0 ''Ref '' ?data @ ''{{'' @ ''unknownField'' @ ''}}''
            @ replace_template_variables L0 '' of {{total}}'' ?data"
    by (rule unknown_token_left_verbatim) (simp_all add: is_word_char_def)
  moreover have "replace_template_variables L0 ''Ref '' ?data = ''Ref ''"
    by (simp add: replace_template_variables_def match_token_def)
  moreover have "replace_template_variables L0 '' of {{total}}'' ?data = '' of $110.00''"
    by (simp add: replace_template_variables_def match_token_def is_word_char_def
        replace_var_def py_str_def)
  ultimately show ?thesis by simp
qed

subsection \<open>Table rows\<close>

lemma remove_rows_upto:
  "length rows = b \<Longrightarrow> a \<le> b \<Longrightarrow> fold remove_row (rev [a..<b]) rows = take a rows"
proof (induction b arbitrary: rows)
  case 0
  then show ?case by simp
next
  case (Suc b)
  show ?case
  proof (cases "a \<le> b")
    case True
    have "remove_row b rows = take b rows"
      using Suc.prems(1) by (simp add: remove_row_def)
    moreover have "fold remove_row (rev [a..<b]) (take b rows) = take a (take b rows)"
      using Suc.prems(1) True by (intro Suc.IH) simp_all
    ultimately show ?thesis using True by (simp add: min_absorb1)
  next
    case False
    with Suc.prems have "a = Suc b" by simp
    with Suc.prems show ?thesis by simp
  qed
qed

lemma remove_rows_after_take:
  "remove_rows_after idx rows = take (Suc idx) rows"
proof (cases "Suc idx \<le> length rows")
  case True
  then show ?thesis
    using remove_rows_upto [of rows "length rows" "Suc idx"] by (simp add: remove_rows_after_def)
next
  case False
  then show ?thesis by (simp add: remove_rows_after_def)
qed

lemma add_item_rows_for_each:
  "add_item_rows L n tc items rows =
     bnd (for_each (new_item_row L n tc) items) (\<lambda>new. Inr (rows @ new))"
proof (induction items arbitrary: rows)
  case Nil
  show ?case by simp
next
  case (Cons item items)
  show ?case
  proof (cases "new_item_row L n tc item")
    case (Inl e)
    then show ?thesis by simp
  next
    case (Inr r)
    then show ?thesis
      by (cases "for_each (new_item_row L n tc) items") (simp_all add: Cons.IH)
  qed
qed

lemma find_item_row_bounds:
  "find_item_row k rows = Some idx \<Longrightarrow>
     k \<le> idx \<and> idx < k + length rows \<and> str_contains ''{{item_'' (str_join '' '' (rows ! (idx - k)))"
proof (induction rows arbitrary: k)
  case Nil
  then show ?case by simp
next
  case (Cons r rows)
  show ?case
  proof (cases "str_contains ''{{item_'' (str_join '' '' r)")
    case True
    with Cons.prems show ?thesis by simp
  next
    case False
    with Cons.prems have "find_item_row (Suc k) rows = Some idx" by simp
    from Cons.IH [OF this] show ?thesis
      by (auto simp: Suc_diff_le)
  qed
qed

text \<open>What \<open>process_table\<close> does to a table with an item row.\<close>

lemma process_table_item_bearing:
  assumes "find_item_row 0 (cells t) = Some idx"
  shows "process_table L data items t =
     (if \<not> py_truthy L items then Inr t
      else bnd (py_iter items) (\<lambda>its.
           bnd (for_each (new_item_row L (ncols t) (cells t ! idx)) its) (\<lambda>new.
             Inr (t\<lparr>cells := take (Suc idx) (cells t) @ new\<rparr>))))"
proof -
  from find_item_row_bounds [OF assms] have "idx < length (cells t)" by simp
  then show ?thesis
    using assms
    by (cases "py_iter items")
       (simp_all add: process_table_def process_table_rows_def remove_rows_after_take
          add_item_rows_for_each Let_def bnd_def split: sum.splits)
qed

text \<open>
  \<open>process_document\<close> handles the tables one after the other, each by \<open>process_table\<close>: what
  is proved below of one table holds of every table of a document that is rendered.
\<close>

lemma process_document_tables_each:
  assumes "process_document_tables L data items tables = Inr tables'"
  shows "length tables' = length tables"
    and "k < length tables \<Longrightarrow> process_table L data items (tables ! k) = Inr (tables' ! k)"
  using assms for_each_length [of "process_table L data items" tables tables']
    for_each_nth [of "process_table L data items" tables tables' k]
  by (simp_all add: process_document_tables_def)

lemma fill_cells_length:
  "fill_cells L item todo c0 = Inr c \<Longrightarrow> length c = length c0"
proof (induction todo arbitrary: c0)
  case Nil
  then show ?case by simp
next
  case (Cons p todo)
  obtain i tx where p: "p = (i, tx)" by (cases p)
  show ?case
  proof (cases "i < length c0")
    case True
    with Cons.prems p obtain m where
      "fill_cells L item todo (c0[i := replace_template_variables L tx m]) = Inr c"
      by (auto simp: bnd_Inr_iff)
    from Cons.IH [OF this] show ?thesis by simp
  next
    case False
    with Cons.prems p Cons.IH show ?thesis by simp
  qed
qed

lemma fill_cells_untouched:
  "fill_cells L item (enumerate k tcs) c0 = Inr c \<Longrightarrow> i < k \<or> k + length tcs \<le> i \<Longrightarrow>
     c ! i = c0 ! i"
proof (induction tcs arbitrary: k c0)
  case Nil
  then show ?case by simp
next
  case (Cons tx tcs)
  have ik: "i \<noteq> k" "i < Suc k \<or> Suc k + length tcs \<le> i"
    using Cons.prems(2) by auto
  show ?case
  proof (cases "k < length c0")
    case True
    with Cons.prems(1) obtain m where
      "fill_cells L item (enumerate (Suc k) tcs) (c0[k := replace_template_variables L tx m]) = Inr c"
      by (auto simp: bnd_Inr_iff)
    from Cons.IH [OF this ik(2)] ik(1) show ?thesis by simp
  next
    case False
    with Cons.prems(1) have "fill_cells L item (enumerate (Suc k) tcs) c0 = Inr c" by simp
    from Cons.IH [OF this ik(2)] show ?thesis .
  qed
qed

lemma fill_cells_filled:
  "fill_cells L item (enumerate k tcs) c0 = Inr c \<Longrightarrow> k \<le> i \<Longrightarrow> i < k + length tcs \<Longrightarrow>
     i < length c0 \<Longrightarrow>
     \<exists>m. item_mapping L item = Inr m \<and> c ! i = replace_template_variables L (tcs ! (i - k)) m"
proof (induction tcs arbitrary: k c0)
  case Nil
  then show ?case by simp
next
  case (Cons tx tcs)
  show ?case
  proof (cases "k < length c0")
    case True
    with Cons.prems(1) obtain m where m: "item_mapping L item = Inr m"
      and rec: "fill_cells L item (enumerate (Suc k) tcs)
                  (c0[k := replace_template_variables L tx m]) = Inr c"
      by (auto simp: bnd_Inr_iff)
    show ?thesis
    proof (cases "i = k")
      case True
      have "c ! k = (c0[k := replace_template_variables L tx m]) ! k"
        using fill_cells_untouched [OF rec, of k] by simp
      with True \<open>k < length c0\<close> m show ?thesis by simp
    next
      case False
      with Cons.prems have "Suc k \<le> i" "i < Suc k + length tcs"
        "i < length (c0[k := replace_template_variables L tx m])" by simp_all
      from Cons.IH [OF rec this] False Cons.prems(2) show ?thesis
        by (auto simp: Suc_diff_le)
    qed
  next
    case False
    with Cons.prems show ?thesis by simp
  qed
qed

lemma new_item_row_cells:
  assumes "new_item_row L n tc item = Inr r"
  shows "length r = n"
    and "i < n \<Longrightarrow> i < length tc \<Longrightarrow>
           \<exists>m. item_mapping L item = Inr m \<and> r ! i = replace_template_variables L (tc ! i) m"
    and "i < n \<Longrightarrow> length tc \<le> i \<Longrightarrow> r ! i = []"
proof -
  from assms have f: "fill_cells L item (enumerate 0 tc) (replicate n []) = Inr r"
    by (simp add: new_item_row_def)
  from fill_cells_length [OF f] show "length r = n" by simp
  show "i < n \<Longrightarrow> i < length tc \<Longrightarrow>
           \<exists>m. item_mapping L item = Inr m \<and> r ! i = replace_template_variables L (tc ! i) m"
    using fill_cells_filled [OF f, of i] by simp
  show "i < n \<Longrightarrow> length tc \<le> i \<Longrightarrow> r ! i = []"
    using fill_cells_untouched [OF f, of i] by simp
qed

lemma item_mapping_keys:
  "item_mapping L item = Inr m \<Longrightarrow>
     map fst m = [''item_name'', ''item_description'', ''item_quantity'', ''item_rate'', ''item_amount'']"
  by (auto simp: item_mapping_def bnd_Inr_iff)

lemma L0_fields:
  "fromisoformat L0 = fromisoformat0" "strftime L0 = strftime0" "json_loads L0 = json_loads0"
  "json_dumps L0 = json_dumps0" "float_of_int L0 = (\<lambda>n. Inr (n, 1))" "float_of_str L0 = frac_of_str"
  "float_div_int L0 = frac_div_int" "float_mul L0 = frac_mul" "float_pos L0 = (\<lambda>x. 0 < fst x)"
  "float_nonzero L0 = (\<lambda>x. fst x \<noteq> 0)" "format_2f L0 = frac_format_2f"
  "repr_float L0 = frac_repr" "repr_container L0 = py_repr0"
  by (simp_all add: L0_def)

lemma valid_item_mapping:
  "valid_item L item \<Longrightarrow> \<exists>m. item_mapping L item = Inr m"
  by (auto simp: valid_item_def float_ok_def item_mapping_def py_get_def
      split: pyval.splits sum.splits)

lemma fill_cells_total:
  "item_mapping L item = Inr m \<Longrightarrow> \<exists>c. fill_cells L item todo c0 = Inr c"
proof (induction todo arbitrary: c0)
  case Nil
  show ?case by simp
next
  case (Cons p todo)
  obtain i tx where p: "p = (i, tx)" by (cases p)
  from Cons show ?case by (simp add: p)
qed

lemma new_item_row_total:
  "valid_item L item \<Longrightarrow> \<exists>r. new_item_row L n tc item = Inr r"
  using valid_item_mapping [of L item] fill_cells_total [of L item]
  by (auto simp: new_item_row_def)

lemma item_mapping_unknown:
  assumes "item_mapping L item = Inr m" and "name \<notin> set item_keys"
  shows "map_of m name = None"
proof -
  have "map fst m = item_keys"
    using item_mapping_keys [OF assms(1)] by (simp add: item_keys_def)
  with assms(2) show ?thesis
    by (metis map_of_eq_None_iff set_map)
qed

subsection \<open>The example table rendered\<close>

lemma frac_format_50: "frac_format_2f (50, 1) = ''50.00''"
  by (simp add: frac_format_2f_def frac_cents_def show_nat.simps)

lemma frac_format_100: "frac_format_2f (100, 1) = ''100.00''"
  by (simp add: frac_format_2f_def frac_cents_def show_nat.simps)

lemma py_str_2: "py_str L (PInt 2) = ''2''"
  by (simp add: py_str_def show_int_def show_nat.simps)

lemma example_find: "find_item_row 0 (cells example_table) = Some 1"
  by (simp add: example_table_def)

lemma example_valid: "valid_item L0 example_item"
  by (simp add: valid_item_def float_ok_def example_item_def py_float_def L0_fields)

lemma example_mapping:
  "item_mapping L0 example_item =
     Inr [(''item_name'', PStr ''Widget''), (''item_description'', PStr []),
          (''item_quantity'', PStr ''2''), (''item_rate'', PStr ''$50.00''),
          (''item_amount'', PStr ''$100.00'')]"
  by (simp add: example_item_def item_mapping_def py_get_def py_float_def L0_fields
      frac_format_50 frac_format_100 py_str_2)

lemma example_cell1:
  "replace_template_variables L0 ''{{item_name}}''
     [(''item_name'', PStr ''Widget''), (''item_description'', PStr []),
          (''item_quantity'', PStr ''2''), (''item_rate'', PStr ''$50.00''),
          (''item_amount'', PStr ''$100.00'')] = ''Widget''"
  by (simp add: replace_template_variables_def match_token_def is_word_char_def replace_var_def
      py_str_def)

lemma example_cell2:
  "replace_template_variables L0 ''{{item_amount}} of {{total}}''
     [(''item_name'', PStr ''Widget''), (''item_description'', PStr []),
          (''item_quantity'', PStr ''2''), (''item_rate'', PStr ''$50.00''),
          (''item_amount'', PStr ''$100.00'')] = ''$100.00 of {{total}}''"
  by (simp add: replace_template_variables_def match_token_def is_word_char_def replace_var_def
      py_str_def)

lemma example_row:
  "new_item_row L0 2 [''{{item_name}}'', ''{{item_amount}} of {{total}}''] example_item =
     Inr [''Widget'', ''$100.00 of {{total}}'']"
  by (simp add: new_item_row_def example_mapping example_cell1 example_cell2 numeral_2_eq_2)

lemma example_render:
  "process_table L0 data (PList [example_item]) example_table = Inr example_rendered"
  by (simp add: process_table_item_bearing [OF example_find] py_truthy_def py_iter_def)
     (simp add: example_table_def example_rendered_def example_row)

subsection \<open>Row counts\<close>

text \<open>
  C3 (as stated, refuted). A document whose only table has a header row and a template
  row, rendered with one item: the table has three rows, not one, and the template row is
  still the second of them.
\<close>

theorem template_row_remains_counterexample:
  "process_document_tables L0 [] (PList [example_item]) [example_table] = Inr [example_rendered] \<and>
   length (cells example_rendered) = 3 \<and> length [example_item] = 1 \<and>
   cells example_rendered ! 1 = [''{{item_name}}'', ''{{item_amount}} of {{total}}'']"
  by (simp add: process_document_tables_def example_render) (simp add: example_rendered_def)

text \<open>
  C3 (amended). When an invoice with at least one item is rendered into a table whose
  template row has index \<open>idx\<close>, the table has \<open>idx + 1 + len(items)\<close> rows; with no items
  the table is returned as it was. In both cases the rows up to the template row are
  unchanged and the template row is still row \<open>idx\<close>, with its \<open>{{item_\<close> tokens.
\<close>

theorem item_table_row_count:
  assumes "find_item_row 0 (cells t) = Some idx"
    and "process_table L data (PList items) t = Inr t'"
  shows "(items \<noteq> [] \<longrightarrow> length (cells t') = Suc idx + length items) \<and>
         (items = [] \<longrightarrow> t' = t) \<and>
         take (Suc idx) (cells t') = take (Suc idx) (cells t) \<and>
         idx < length (cells t') \<and> cells t' ! idx = cells t ! idx \<and>
         str_contains ''{{item_'' (str_join '' '' (cells t' ! idx))"
proof -
  from find_item_row_bounds [OF assms(1)]
  have idx: "idx < length (cells t)"
    and tok: "str_contains ''{{item_'' (str_join '' '' (cells t ! idx))" by simp_all
  show ?thesis
  proof (cases "items = []")
    case True
    with assms(2) have "t' = t"
      by (simp add: process_table_item_bearing [OF assms(1)] py_truthy_def)
    with True idx tok show ?thesis by simp
  next
    case False
    with assms(2) obtain new where
      new: "for_each (new_item_row L (ncols t) (cells t ! idx)) items = Inr new"
      and t': "t' = t\<lparr>cells := take (Suc idx) (cells t) @ new\<rparr>"
      by (auto simp: process_table_item_bearing [OF assms(1)] py_truthy_def py_iter_def
          bnd_Inr_iff)
    have "length new = length items" by (rule for_each_length [OF new])
    with False idx tok t' show ?thesis
      by (simp add: nth_append min_absorb2)
  qed
qed

theorem item_table_row_count_witness:
  "find_item_row 0 (cells example_table) = Some 1 \<and>
   process_table L0 [] (PList [example_item]) example_table = Inr example_rendered \<and>
   length (cells example_rendered) = Suc 1 + length [example_item] \<and>
   cells example_rendered ! 1 = cells example_table ! 1"
  using item_table_row_count [OF example_find example_render [of "[]"]] example_find example_render
  by simp

lemma for_each_valid_rows:
  "list_all (valid_item L) items \<Longrightarrow> \<exists>new. for_each (new_item_row L n tc) items = Inr new"
  by (rule for_each_total) (auto simp: list_all_iff intro: new_item_row_total)

text \<open>
  C5. For a table with an item row at index \<open>idx\<close> and an invoice whose items are a list of
  \<open>n\<close> entries: rendering succeeds whenever every item is a dictionary whose rate and
  amount \<open>float\<close> accepts, and whenever it succeeds the table consists of original rows
  followed by exactly \<open>n\<close> newly generated rows, one per item in order. For \<open>n > 0\<close> the
  original rows kept are the rows up to and including the template row; for \<open>n = 0\<close>
  nothing is generated and the table is as it was.
\<close>

theorem item_rows_generated:
  assumes "find_item_row 0 (cells t) = Some idx"
  shows "(list_all (valid_item L) items \<longrightarrow>
            (\<exists>t'. process_table L data (PList items) t = Inr t')) \<and>
         (\<forall>t'. process_table L data (PList items) t = Inr t' \<longrightarrow>
            (\<exists>new. length new = length items \<and>
                   for_each (new_item_row L (ncols t) (cells t ! idx)) items = Inr new \<and>
                   cells t' = (if items = [] then cells t else take (Suc idx) (cells t)) @ new))"
proof (intro conjI allI impI)
  assume "list_all (valid_item L) items"
  from for_each_valid_rows [OF this, of "ncols t" "cells t ! idx"]
  show "\<exists>t'. process_table L data (PList items) t = Inr t'"
    by (auto simp: process_table_item_bearing [OF assms] py_iter_def)
next
  fix t'
  assume r: "process_table L data (PList items) t = Inr t'"
  show "\<exists>new. length new = length items \<and>
          for_each (new_item_row L (ncols t) (cells t ! idx)) items = Inr new \<and>
          cells t' = (if items = [] then cells t else take (Suc idx) (cells t)) @ new"
  proof (cases "items = []")
    case True
    with r have "t' = t"
      by (simp add: process_table_item_bearing [OF assms] py_truthy_def)
    with True show ?thesis by simp
  next
    case False
    with r obtain new where
      new: "for_each (new_item_row L (ncols t) (cells t ! idx)) items = Inr new"
      and t': "t' = t\<lparr>cells := take (Suc idx) (cells t) @ new\<rparr>"
      by (auto simp: process_table_item_bearing [OF assms] py_truthy_def py_iter_def
          bnd_Inr_iff)
    from for_each_length [OF new] new t' False show ?thesis by simp
  qed
qed

lemma stale_find: "find_item_row 0 (cells example_table_stale) = Some 1"
  by (simp add: example_table_stale_def)

lemma stale_cell2:
  "replace_template_variables L0 ''{{item_amount}}''
     [(''item_name'', PStr ''Widget''), (''item_description'', PStr []),
          (''item_quantity'', PStr ''2''), (''item_rate'', PStr ''$50.00''),
          (''item_amount'', PStr ''$100.00'')] = ''$100.00''"
  by (simp add: replace_template_variables_def match_token_def is_word_char_def replace_var_def
      py_str_def)

lemma stale_row:
  "new_item_row L0 2 [''{{item_name}}'', ''{{item_amount}}''] example_item =
     Inr [''Widget'', ''$100.00'']"
  by (simp add: new_item_row_def example_mapping example_cell1 stale_cell2 numeral_2_eq_2)

lemma stale_render_two:
  "process_table L0 data (PList [example_item, example_item]) example_table_stale =
     Inr \<lparr>ncols = 2,
          cells = [[''Item'', ''Amount''], [''{{item_name}}'', ''{{item_amount}}''],
                   [''Widget'', ''$100.00''], [''Widget'', ''$100.00'']]\<rparr>"
  by (simp add: process_table_item_bearing [OF stale_find] py_truthy_def py_iter_def)
     (simp add: example_table_stale_def stale_row)

lemma stale_render_none:
  "process_table L0 data (PList []) example_table_stale = Inr example_table_stale"
  by (simp add: process_table_item_bearing [OF stale_find] py_truthy_def)

theorem item_rows_generated_witness:
  "find_item_row 0 (cells example_table_stale) = Some 1 \<and>
   list_all (valid_item L0) [example_item, example_item] \<and>
   process_table L0 [] (PList [example_item, example_item]) example_table_stale =
     Inr \<lparr>ncols = 2,
          cells = [[''Item'', ''Amount''], [''{{item_name}}'', ''{{item_amount}}''],
                   [''Widget'', ''$100.00''], [''Widget'', ''$100.00'']]\<rparr> \<and>
   process_table L0 [] (PList []) example_table_stale = Inr example_table_stale \<and>
   (\<exists>new. length new = 2 \<and>
      [[''Item'', ''Amount''], [''{{item_name}}'', ''{{item_amount}}''],
       [''Widget'', ''$100.00''], [''Widget'', ''$100.00'']]
        = take 2 (cells example_table_stale) @ new)"
proof -
  have v: "list_all (valid_item L0) [example_item, example_item]"
    by (simp add: example_valid)
  from item_rows_generated [OF stale_find, of L0 "[example_item, example_item]" "[]"]
    stale_render_two [of "[]"]
  have "\<exists>new. length new = 2 \<and>
      [[''Item'', ''Amount''], [''{{item_name}}'', ''{{item_amount}}''],
       [''Widget'', ''$100.00''], [''Widget'', ''$100.00'']]
        = take 2 (cells example_table_stale) @ new"
    by (auto simp: numeral_2_eq_2)
  with v stale_find stale_render_two [of "[]"] stale_render_none [of "[]"]
  show ?thesis by simp
qed

subsection \<open>Which mapping an item table sees\<close>

text \<open>
  C10. In a table with an item row at index \<open>idx\<close>, the rows up to and including the
  template row come out as they went in, and the result does not depend on the
  invoice-level mapping at all. When the items are truthy, every cell of a generated row
  is the template row's cell substituted with the mapping of that row's item, whose keys
  are the five item keys; so a token with any other name, \<open>{{total}}\<close> say, is still
  there in the generated cell. When the items are falsy the table is untouched.
\<close>

theorem item_table_only_item_mapping:
  assumes "find_item_row 0 (cells t) = Some idx"
    and "process_table L data items t = Inr t'"
  shows "process_table L data' items t = Inr t' \<and>
         take (Suc idx) (cells t') = take (Suc idx) (cells t) \<and>
         (\<not> py_truthy L items \<longrightarrow> t' = t) \<and>
         (py_truthy L items \<longrightarrow>
            (\<exists>its. py_iter items = Inr its \<and> length (cells t') = Suc idx + length its \<and>
               (\<forall>j i. j < length its \<and> i < ncols t \<and> i < length (cells t ! idx) \<longrightarrow>
                  (\<exists>m. item_mapping L (its ! j) = Inr m \<and> map fst m = item_keys \<and>
                       cells t' ! (Suc idx + j) ! i
                         = replace_template_variables L (cells t ! idx ! i) m \<and>
                       (\<forall>name pre post.
                          name \<noteq> [] \<and> list_all is_word_char name \<and> name \<notin> set item_keys \<and>
                          cells t ! idx ! i = pre @ ''{{'' @ name @ ''}}'' @ post \<longrightarrow>
                          cells t' ! (Suc idx + j) ! i
                            = replace_template_variables L pre m @ ''{{'' @ name @ ''}}''
                                @ replace_template_variables L post m)))))"
proof -
  from find_item_row_bounds [OF assms(1)] have idx: "idx < length (cells t)" by simp
  have indep: "process_table L data' items t = process_table L data items t"
    by (simp add: process_table_item_bearing [OF assms(1)])
  show ?thesis
  proof (cases "py_truthy L items")
    case False
    with assms(2) have "t' = t"
      by (simp add: process_table_item_bearing [OF assms(1)])
    with False indep assms(2) show ?thesis by simp
  next
    case True
    with assms(2) obtain its new where its: "py_iter items = Inr its"
      and new: "for_each (new_item_row L (ncols t) (cells t ! idx)) its = Inr new"
      and t': "t' = t\<lparr>cells := take (Suc idx) (cells t) @ new\<rparr>"
      by (auto simp: process_table_item_bearing [OF assms(1)] bnd_Inr_iff)
    have len: "length new = length its" by (rule for_each_length [OF new])
    have pre: "take (Suc idx) (cells t') = take (Suc idx) (cells t)"
      using idx t' by (simp add: min_absorb2)
    have cell: "\<exists>m. item_mapping L (its ! j) = Inr m \<and> map fst m = item_keys \<and>
                   cells t' ! (Suc idx + j) ! i
                     = replace_template_variables L (cells t ! idx ! i) m \<and>
                   (\<forall>name pre post.
                      name \<noteq> [] \<and> list_all is_word_char name \<and> name \<notin> set item_keys \<and>
                      cells t ! idx ! i = pre @ ''{{'' @ name @ ''}}'' @ post \<longrightarrow>
                      cells t' ! (Suc idx + j) ! i
                        = replace_template_variables L pre m @ ''{{'' @ name @ ''}}''
                            @ replace_template_variables L post m)"
      if j: "j < length its" and i: "i < ncols t" "i < length (cells t ! idx)" for j i
    proof -
      have row: "new_item_row L (ncols t) (cells t ! idx) (its ! j) = Inr (new ! j)"
        by (rule for_each_nth [OF new j])
      from new_item_row_cells(2) [OF row i] obtain m where
        m: "item_mapping L (its ! j) = Inr m"
        and c: "new ! j ! i = replace_template_variables L (cells t ! idx ! i) m" by blast
      have at: "cells t' ! (Suc idx + j) = new ! j"
        using idx t' by (simp add: nth_append min_absorb2)
      have keys: "map fst m = item_keys"
        using item_mapping_keys [OF m] by (simp add: item_keys_def)
      have "cells t' ! (Suc idx + j) ! i
              = replace_template_variables L pre m @ ''{{'' @ name @ ''}}''
                  @ replace_template_variables L post m"
        if "name \<noteq> []" "list_all is_word_char name" "name \<notin> set item_keys"
          "cells t ! idx ! i = pre @ ''{{'' @ name @ ''}}'' @ post" for name pre post
      proof -
        have "map_of m name = None" by (rule item_mapping_unknown [OF m that(3)])
        with replace_around_token [OF that(1,2), of L pre post m] at c that(4)
        show ?thesis by (simp add: replace_var_def py_str_def)
      qed
      with m keys at c show ?thesis by auto
    qed
    have "length (cells t') = Suc idx + length its"
      using idx t' len by (simp add: min_absorb2)
    with True indep assms(2) pre its cell show ?thesis by auto
  qed
qed

theorem item_table_only_item_mapping_witness:
  "find_item_row 0 (cells example_table) = Some 1 \<and>
   process_table L0 [(''total'', PStr ''$110.00'')] (PList [example_item]) example_table
     = Inr example_rendered \<and>
   process_table L0 [] (PList [example_item]) example_table = Inr example_rendered \<and>
   take 2 (cells example_rendered) = take 2 (cells example_table) \<and>
   cells example_rendered ! 2 ! 1 = ''$100.00 of {{total}}''"
proof -
  from item_table_only_item_mapping
    [OF example_find example_render [of "[(''total'', PStr ''$110.00'')]"], of "[]"]
  have "process_table L0 [] (PList [example_item]) example_table = Inr example_rendered"
    and "take 2 (cells example_rendered) = take 2 (cells example_table)"
    by (simp_all add: numeral_2_eq_2)
  moreover have "cells example_rendered ! 2 ! 1 = ''$100.00 of {{total}}''"
    by (simp add: example_rendered_def)
  ultimately show ?thesis
    using example_find example_render [of "[(''total'', PStr ''$110.00'')]"] by simp
qed

section \<open>Properties of the accounting export\<close>

subsection \<open>Dates and dispatch\<close>

lemma for_each_Inr_all:
  "for_each f xs = Inr ys \<Longrightarrow> x \<in> set xs \<Longrightarrow> \<exists>y. f x = Inr y"
  by (auto simp: for_each_Inr_iff in_set_conv_nth dest: list_all2_nthD)

lemma not_Inr_is_Inl: "(\<forall>y. m \<noteq> Inr y) \<Longrightarrow> \<exists>e. m = Inl e"
  by (cases m) auto

lemma date_ok_iff: "date_ok L invoice key \<longleftrightarrow> (\<exists>d. parse_date L invoice key = Inr d)"
  by (simp add: date_ok_def split: sum.splits)

lemma sage_row_dates: "sage_row L invoice = Inr row \<Longrightarrow> dates_ok L invoice"
  by (auto simp: sage_row_def bnd_Inr_iff dates_ok_def date_ok_iff)

lemma generic_row_dates: "generic_row L invoice = Inr row \<Longrightarrow> dates_ok L invoice"
  by (auto simp: generic_row_def bnd_Inr_iff dates_ok_def date_ok_iff)

lemma iif_invoice_records_dates: "iif_invoice_records L invoice = Inr recs \<Longrightarrow> dates_ok L invoice"
  by (auto simp: iif_invoice_records_def bnd_Inr_iff dates_ok_def date_ok_iff)

lemma xero_row_dates: "xero_row L invoice item = Inr row \<Longrightarrow> dates_ok L invoice"
  by (auto simp: xero_row_def bnd_Inr_iff dates_ok_def date_ok_iff)

lemma wave_row_dates: "wave_row L invoice p = Inr row \<Longrightarrow> dates_ok L invoice"
  by (auto simp: wave_row_def Let_def bnd_Inr_iff dates_ok_def date_ok_iff)

lemma xero_invoice_rows_dates:
  assumes "xero_invoice_rows L invoice = Inr rows"
  shows "items_of L invoice = Inr [] \<or> dates_ok L invoice"
proof -
  from assms obtain items where i: "items_of L invoice = Inr items"
    and r: "for_each (xero_row L invoice) items = Inr rows"
    by (auto simp: xero_invoice_rows_def bnd_Inr_iff)
  show ?thesis
  proof (cases items)
    case Nil
    with i show ?thesis by simp
  next
    case (Cons item more_items)
    with for_each_Inr_all [OF r, of item] show ?thesis
      by (auto dest: xero_row_dates)
  qed
qed

lemma wave_invoice_rows_dates:
  assumes "wave_invoice_rows L invoice = Inr rows"
  shows "items_of L invoice = Inr [] \<or> dates_ok L invoice"
proof -
  from assms obtain items where i: "items_of L invoice = Inr items"
    and r: "for_each (wave_row L invoice) (enumerate 0 items) = Inr rows"
    by (auto simp: wave_invoice_rows_def bnd_Inr_iff)
  show ?thesis
  proof (cases items)
    case Nil
    with i show ?thesis by simp
  next
    case (Cons item more_items)
    with for_each_Inr_all [OF r, of "(0, item)"] show ?thesis
      by (auto dest: wave_row_dates)
  qed
qed

lemma supported_formats_cases:
  "format_type \<in> set supported_formats \<Longrightarrow>
     format_type = ''quickbooks_iif'' \<or> format_type = ''xero_csv'' \<or> format_type = ''sage_csv'' \<or>
     format_type = ''freshbooks_csv'' \<or> format_type = ''wave_csv'' \<or> format_type = ''generic_csv''"
  by (simp add: supported_formats_def)

lemma export_invoices_dispatch:
  "export_invoices L now1 now2 invoices ''quickbooks_iif'' = export_to_quickbooks_iif L now1 now2 invoices"
  "export_invoices L now1 now2 invoices ''xero_csv'' = export_to_xero_csv L invoices"
  "export_invoices L now1 now2 invoices ''sage_csv'' = export_to_sage_csv L invoices"
  "export_invoices L now1 now2 invoices ''freshbooks_csv'' = export_to_generic_csv L invoices"
  "export_invoices L now1 now2 invoices ''wave_csv'' = export_to_wave_csv L invoices"
  "export_invoices L now1 now2 invoices ''generic_csv'' = export_to_generic_csv L invoices"
  by (simp_all add: export_invoices_def supported_formats_def)

text \<open>
  C1 (amended). A batch that contains an invoice with a malformed date is not exported at
  all: for \<open>quickbooks_iif\<close>, \<open>sage_csv\<close>, \<open>freshbooks_csv\<close> and \<open>generic_csv\<close> the call ends in
  an exception and returns no text, and so it does for \<open>xero_csv\<close> and \<open>wave_csv\<close> unless
  that invoice has no items (its dates are then never parsed).
\<close>

theorem malformed_date_fails_export:
  assumes "invoice \<in> set invoices" and "\<not> dates_ok L invoice"
    and "format_type \<in> set supported_formats"
    and "format_type = ''xero_csv'' \<or> format_type = ''wave_csv'' \<longrightarrow> items_of L invoice \<noteq> Inr []"
  shows "\<exists>e. export_invoices L now1 now2 invoices format_type = Inl e"
proof (rule not_Inr_is_Inl, intro allI notI)
  fix out
  assume ok: "export_invoices L now1 now2 invoices format_type = Inr out"
  from supported_formats_cases [OF assms(3)] show False
  proof (elim disjE)
    assume f: "format_type = ''quickbooks_iif''"
    with ok obtain recs where "for_each (iif_invoice_records L) invoices = Inr recs"
      by (auto simp: export_invoices_dispatch export_to_quickbooks_iif_def bnd_Inr_iff)
    from for_each_Inr_all [OF this assms(1)] assms(2) show False
      by (auto dest: iif_invoice_records_dates)
  next
    assume f: "format_type = ''xero_csv''"
    with ok obtain rows where "for_each (xero_invoice_rows L) invoices = Inr rows"
      by (auto simp: export_invoices_dispatch export_to_xero_csv_def bnd_Inr_iff)
    from for_each_Inr_all [OF this assms(1)] assms(2,4) f show False
      by (auto dest: xero_invoice_rows_dates)
  next
    assume f: "format_type = ''sage_csv''"
    with ok obtain rows where "for_each (sage_row L) invoices = Inr rows"
      by (auto simp: export_invoices_dispatch export_to_sage_csv_def bnd_Inr_iff)
    from for_each_Inr_all [OF this assms(1)] assms(2) show False
      by (auto dest: sage_row_dates)
  next
    assume f: "format_type = ''freshbooks_csv''"
    with ok obtain rows where "for_each (generic_row L) invoices = Inr rows"
      by (auto simp: export_invoices_dispatch export_to_generic_csv_def bnd_Inr_iff)
    from for_each_Inr_all [OF this assms(1)] assms(2) show False
      by (auto dest: generic_row_dates)
  next
    assume f: "format_type = ''wave_csv''"
    with ok obtain rows where "for_each (wave_invoice_rows L) invoices = Inr rows"
      by (auto simp: export_invoices_dispatch export_to_wave_csv_def bnd_Inr_iff)
    from for_each_Inr_all [OF this assms(1)] assms(2,4) f show False
      by (auto dest: wave_invoice_rows_dates)
  next
    assume f: "format_type = ''generic_csv''"
    with ok obtain rows where "for_each (generic_row L) invoices = Inr rows"
      by (auto simp: export_invoices_dispatch export_to_generic_csv_def bnd_Inr_iff)
    from for_each_Inr_all [OF this assms(1)] assms(2) show False
      by (auto dest: generic_row_dates)
  qed
qed

text \<open>
  C9. \<open>freshbooks_csv\<close> is one of the supported formats, no branch of the dispatch names it,
  and the final \<open>else\<close> sends it to \<open>export_to_generic_csv\<close>: the result is the result for
  \<open>generic_csv\<close>.
\<close>

theorem freshbooks_is_generic:
  "''freshbooks_csv'' \<in> set supported_formats \<and>
   export_invoices L now1 now2 invoices ''freshbooks_csv'' = export_to_generic_csv L invoices \<and>
   export_invoices L now1 now2 invoices ''freshbooks_csv''
     = export_invoices L now1 now2 invoices ''generic_csv''"
  by (simp add: export_invoices_dispatch) (simp add: supported_formats_def)

text \<open>
  C2 (amended). For the five CSV formats the result is a function of the invoices and the
  format: the clock is not read. The IIF text holds the date and the time of the call in
  its \<open>HDR\<close> line, and depends on the clock through these two fields only.
\<close>

theorem export_depends_on_clock_only_in_iif_header:
  "(format_type \<noteq> ''quickbooks_iif'' \<longrightarrow>
      export_invoices L a1 a2 invoices format_type = export_invoices L b1 b2 invoices format_type) \<and>
   ((\<exists>e. \<forall>now1 now2. export_invoices L now1 now2 invoices ''quickbooks_iif'' = Inl e) \<or>
    (\<exists>before after. \<forall>now1 now2.
        export_invoices L now1 now2 invoices ''quickbooks_iif'' =
          Inr (before @ strftime L now1 ''%m/%d/%Y'' @ [CHR 0x09] @ strftime L now2 ''%H:%M:%S''
                 @ after)))"
proof (intro conjI impI)
  assume "format_type \<noteq> ''quickbooks_iif''"
  then show "export_invoices L a1 a2 invoices format_type
             = export_invoices L b1 b2 invoices format_type"
    by (simp add: export_invoices_def)
next
  show "(\<exists>e. \<forall>now1 now2. export_invoices L now1 now2 invoices ''quickbooks_iif'' = Inl e) \<or>
    (\<exists>before after. \<forall>now1 now2.
        export_invoices L now1 now2 invoices ''quickbooks_iif'' =
          Inr (before @ strftime L now1 ''%m/%d/%Y'' @ [CHR 0x09] @ strftime L now2 ''%H:%M:%S''
                 @ after))"
  proof (cases "for_each (iif_invoice_records L) invoices")
    case (Inl e)
    then show ?thesis
      by (auto simp: export_invoices_dispatch export_to_quickbooks_iif_def)
  next
    case (Inr recs)
    have "str_join [CHR 0x0A] (iif_header L now1 now2 @ rest) =
            (iif_hdr_columns @ [CHR 0x0A]
               @ tab_join [''HDR'', ''QuickBooks Pro'', ''2023'', ''Release'', ''1'', []])
            @ strftime L now1 ''%m/%d/%Y'' @ [CHR 0x09] @ strftime L now2 ''%H:%M:%S''
            @ ([CHR 0x09] @ ''N'' @ [CHR 0x0A] @ str_join [CHR 0x0A] (iif_trns_columns # rest))"
      for rest :: "string list" and now1 now2
      by (simp add: iif_header_def tab_join_def)
    then have "\<exists>before after. \<forall>now1 now2.
        str_join [CHR 0x0A] (iif_header L now1 now2 @ rest) =
          before @ strftime L now1 ''%m/%d/%Y'' @ [CHR 0x09] @ strftime L now2 ''%H:%M:%S''
                 @ after" for rest :: "string list"
      by blast
    with Inr show ?thesis
      by (simp add: export_invoices_dispatch export_to_quickbooks_iif_def)
  qed
qed

subsection \<open>The items field\<close>




















lemma csv_field_empty_iff: "csv_field s = [] \<longleftrightarrow> s = []"
  by (cases s) (simp_all add: csv_field_def)

lemma wave_row_total:
  assumes "wave_row L invoice (i, item) = Inr row"
  shows "length row = 14"
    and "i = 0 \<Longrightarrow> py_getitem invoice ''total'' = Inr (row ! 12)"
    and "0 < i \<Longrightarrow> row ! 12 = PStr []"
  using assms by (auto simp: wave_row_def bnd_Inr_iff)

text \<open>
  C6. For an invoice with at least one item whose total is written as a non-empty text (a
  number, or a non-empty string), the rows the Wave export writes for it are one per item,
  the \<open>Invoice total\<close> field (column 12) of the first is that text, and the field is empty in
  every later row.
\<close>

theorem wave_total_on_first_row_only:
  assumes "wave_invoice_rows L invoice = Inr rows"
    and "items_of L invoice = Inr items" and "items \<noteq> []"
    and "py_getitem invoice ''total'' = Inr tot" and "csv_value L tot \<noteq> []"
  shows "export_to_wave_csv L [invoice] = Inr (csv_output L wave_fieldnames rows) \<and>
         wave_fieldnames ! 12 = ''Invoice total'' \<and>
         length rows = length items \<and>
         csv_field (csv_value L (rows ! 0 ! 12)) = csv_field (csv_value L tot) \<and>
         csv_field (csv_value L (rows ! 0 ! 12)) \<noteq> [] \<and>
         (\<forall>j. 0 < j \<and> j < length rows \<longrightarrow> csv_field (csv_value L (rows ! j ! 12)) = [])"
proof -
  from assms(1,2) have r: "for_each (wave_row L invoice) (enumerate 0 items) = Inr rows"
    by (simp add: wave_invoice_rows_def)
  have len: "length rows = length items"
    using for_each_length [OF r] by simp
  have row: "wave_row L invoice (j, items ! j) = Inr (rows ! j)" if "j < length items" for j
    using for_each_nth [OF r, of j] that by (simp add: nth_enumerate_eq)
  have first: "rows ! 0 ! 12 = tot"
    using wave_row_total(2) [OF row [of 0]] assms(3,4) by simp
  have later: "rows ! j ! 12 = PStr []" if "0 < j" "j < length rows" for j
    using wave_row_total(3) [OF row [of j]] that len by simp
  have out: "export_to_wave_csv L [invoice] = Inr (csv_output L wave_fieldnames rows)"
    using assms(1) by (simp add: export_to_wave_csv_def)
  have name: "wave_fieldnames ! 12 = ''Invoice total''"
    by (simp add: wave_fieldnames_def)
  have empty: "csv_value L (PStr []) = []"
    by (simp add: csv_value_def py_str_def)
  from out name len first later assms(5) show ?thesis
    by (simp add: csv_field_empty_iff empty)
qed



subsection \<open>Amounts in the IIF records\<close>














subsection \<open>The example invoices evaluated\<close>

lemma example_fields_lookup:
  "map_of example_fields ''invoiceNumber'' = Some (PStr ''INV-1'')"
  "map_of example_fields ''clientName'' = Some (PStr ''Acme'')"
  "map_of example_fields ''clientEmail'' = Some (PStr ''ap@acme.example'')"
  "map_of example_fields ''addressLine1'' = Some (PStr ''1 Main St'')"
  "map_of example_fields ''city'' = Some (PStr ''Springfield'')"
  "map_of example_fields ''country'' = Some (PStr ''US'')"
  "map_of example_fields ''invoiceDate'' = Some (PStr ''2024-03-15T10:30:00.000Z'')"
  "map_of example_fields ''dueDate'' = Some (PStr ''2024-04-14T10:30:00.000Z'')"
  "map_of example_fields ''subtotal'' = Some (PInt 100)"
  "map_of example_fields ''vat'' = Some (PInt 10)"
  "map_of example_fields ''total'' = Some (PInt 110)"
  "map_of example_fields ''status'' = Some (PStr ''sent'')"
  "map_of example_fields ''items'' = None"
  "map_of example_fields ''discount'' = None"
  "map_of example_fields ''notes'' = None"
  by (simp_all add: example_fields_def)

lemma py_getitem_fields:
  "py_getitem (PDict d) key = (case map_of d key of Some x \<Rightarrow> Inr x | None \<Rightarrow> Inl (KeyError key))"
  by (simp add: py_getitem_def)

lemma py_get_fields:
  "py_get (PDict d) key dflt = Inr (case map_of d key of Some x \<Rightarrow> x | None \<Rightarrow> dflt)"
  by (simp add: py_get_def)

lemmas example_lookup =
  py_getitem_fields py_get_fields update_conv' example_fields_lookup

lemma iso_mar15: "fromisoformat0 ''2024-03-15T10:30:00.000+00:00'' =
    Inr \<lparr>year = 2024, month = 3, day = 15, hour = 10, minute = 30, second = 0\<rparr>"
  by (simp add: fromisoformat0_def parse_nat_def digit_of_def days_in_month_def iso_tail_ok_def
      iso_offset_ok_def)

lemma iso_apr14: "fromisoformat0 ''2024-04-14T10:30:00.000+00:00'' =
    Inr \<lparr>year = 2024, month = 4, day = 14, hour = 10, minute = 30, second = 0\<rparr>"
  by (simp add: fromisoformat0_def parse_nat_def digit_of_def days_in_month_def iso_tail_ok_def
      iso_offset_ok_def)

lemma iso_bad: "fromisoformat0 ''not-a-date'' =
    Inl (ValueError (''Invalid isoformat string: '' @ [CHR 0x27] @ ''not-a-date'' @ [CHR 0x27]))"
  by (simp add: fromisoformat0_def parse_nat_def digit_of_def iso_error_def)

lemma example_dates:
  "parse_date L0 example_invoice ''invoiceDate'' =
     Inr \<lparr>year = 2024, month = 3, day = 15, hour = 10, minute = 30, second = 0\<rparr>"
  "parse_date L0 example_invoice ''dueDate'' =
     Inr \<lparr>year = 2024, month = 4, day = 14, hour = 10, minute = 30, second = 0\<rparr>"
  by (simp_all add: parse_date_def example_invoice_def example_lookup py_replace_Z_def L0_fields
      iso_mar15 iso_apr14)

lemma example2_dates:
  "parse_date L0 example_invoice2 ''invoiceDate'' =
     Inr \<lparr>year = 2024, month = 3, day = 15, hour = 10, minute = 30, second = 0\<rparr>"
  "parse_date L0 example_invoice2 ''dueDate'' =
     Inr \<lparr>year = 2024, month = 4, day = 14, hour = 10, minute = 30, second = 0\<rparr>"
  by (simp_all add: parse_date_def example_invoice2_def example_lookup py_replace_Z_def L0_fields
      iso_mar15 iso_apr14)

lemma bad_date:
  "parse_date L0 bad_invoice ''invoiceDate'' =
     Inl (ValueError (''Invalid isoformat string: '' @ [CHR 0x27] @ ''not-a-date'' @ [CHR 0x27]))"
  by (simp add: parse_date_def bad_invoice_def example_lookup py_replace_Z_def L0_fields iso_bad)

lemma strftime_mar15:
  "strftime L0 \<lparr>year = 2024, month = 3, day = 15, hour = 10, minute = 30, second = 0\<rparr> ''%m/%d/%Y''
     = ''03/15/2024''"
  "strftime L0 \<lparr>year = 2024, month = 3, day = 15, hour = 10, minute = 30, second = 0\<rparr> ''%d/%m/%Y''
     = ''15/03/2024''"
  "strftime L0 \<lparr>year = 2024, month = 3, day = 15, hour = 10, minute = 30, second = 0\<rparr> ''%Y-%m-%d''
     = ''2024-03-15''"
  by (simp_all add: L0_fields strftime_directive_def pad2_def show_nat.simps)

lemma strftime_apr14:
  "strftime L0 \<lparr>year = 2024, month = 4, day = 14, hour = 10, minute = 30, second = 0\<rparr> ''%m/%d/%Y''
     = ''04/14/2024''"
  "strftime L0 \<lparr>year = 2024, month = 4, day = 14, hour = 10, minute = 30, second = 0\<rparr> ''%d/%m/%Y''
     = ''14/04/2024''"
  "strftime L0 \<lparr>year = 2024, month = 4, day = 14, hour = 10, minute = 30, second = 0\<rparr> ''%Y-%m-%d''
     = ''2024-04-14''"
  by (simp_all add: L0_fields strftime_directive_def pad2_def show_nat.simps)

lemma strftime_clock:
  "strftime L0 clock1 ''%m/%d/%Y'' = ''05/02/2024''"
  "strftime L0 clock1 ''%H:%M:%S'' = ''09:00:00''"
  "strftime L0 clock2 ''%m/%d/%Y'' = ''05/02/2024''"
  "strftime L0 clock2 ''%H:%M:%S'' = ''09:00:30''"
  by (simp_all add: L0_fields clock1_def clock2_def strftime_directive_def pad2_def show_nat.simps)

lemma show_int_values:
  "show_int 100 = ''100''" "show_int 110 = ''110''" "show_int 10 = ''10''" "show_int 2 = ''2''"
  "show_int 50 = ''50''"
  by (simp_all add: show_int_def show_nat.simps)

lemma frac_format_10: "frac_format_2f (frac_mul (frac_div_int (10, 1) 100) (100, 1)) = ''10.00''"
  by (simp add: frac_mul_def frac_div_int_def frac_format_2f_def frac_cents_def show_nat.simps)

lemma example_vat:
  "vat_amount L0 example_invoice = Inr (PFloat (frac_mul (frac_div_int (10, 1) 100) (100, 1)))"
  by (simp add: vat_amount_def example_invoice_def example_lookup py_truthy_def py_float_def
      L0_fields)

lemma bad_vat:
  "vat_amount L0 bad_invoice = Inr (PFloat (frac_mul (frac_div_int (10, 1) 100) (100, 1)))"
  by (simp add: vat_amount_def bad_invoice_def example_lookup py_truthy_def py_float_def
      L0_fields)

lemma title_sent: "py_title (PStr ''sent'') = Inr ''Sent''"
  by (simp add: py_title_def is_letter_def to_upper_def to_lower_def)

lemma example_sage_row:
  "sage_row L0 example_invoice =
     Inr [PStr ''Acme'', PStr ''INV-1'', PStr ''15/03/2024'', PStr ''14/04/2024'', PStr ''INV-1'',
          PStr ''Invoice for Acme'', PInt 100, PStr ''10.00'', PInt 110, PStr ''Sent'',
          PStr ''USD'']"
  by (simp add: sage_row_def example_vat example_dates strftime_mar15 strftime_apr14)
     (simp add: example_invoice_def example_lookup py_format_2f_def L0_fields frac_format_10
        title_sent py_str_def)

lemma bad_sage_row:
  "sage_row L0 bad_invoice =
     Inl (ValueError (''Invalid isoformat string: '' @ [CHR 0x27] @ ''not-a-date'' @ [CHR 0x27]))"
  by (simp add: sage_row_def bad_vat bad_date)
     (simp add: bad_invoice_def example_lookup)

lemma example_items:
  "items_of L0 example_invoice = Inr [example_item]"
  "items_of L0 example_invoice2 = Inr [example_item, example_item]"
  "items_of L0 bad_invoice = Inr [example_item]"
  by (simp_all add: items_of_def load_items_def example_invoice_def example_invoice2_def
      bad_invoice_def example_lookup py_iter_def)

lemma example_item_lookup:
  "py_getitem example_item ''name'' = Inr (PStr ''Widget'')"
  "py_getitem example_item ''quantity'' = Inr (PInt 2)"
  "py_getitem example_item ''rate'' = Inr (PInt 50)"
  "py_getitem example_item ''amount'' = Inr (PInt 100)"
  "py_get example_item ''description'' (PStr []) = Inr (PStr [])"
  by (simp_all add: example_item_def py_getitem_def py_get_def)

subsection \<open>C1\<close>

text \<open>
  C1 (as stated, refuted). A batch of a well-formed invoice and an invoice whose invoice
  date is \<open>not-a-date\<close>, exported as \<open>sage_csv\<close>: the call raises the \<open>ValueError\<close> of
  \<open>fromisoformat\<close>, whose message holds the rejected text and neither the invoice number nor
  the field name, and no text is returned, so the row of the first invoice is lost too.
\<close>

theorem malformed_date_loses_batch_counterexample:
  "export_invoices L0 clock1 clock1 [example_invoice, bad_invoice] ''sage_csv'' =
     Inl (ValueError (''Invalid isoformat string: '' @ [CHR 0x27] @ ''not-a-date'' @ [CHR 0x27])) \<and>
   export_invoices L0 clock1 clock1 [example_invoice] ''sage_csv'' =
     Inr (csv_output L0 sage_fieldnames
            [[PStr ''Acme'', PStr ''INV-1'', PStr ''15/03/2024'', PStr ''14/04/2024'',
              PStr ''INV-1'', PStr ''Invoice for Acme'', PInt 100, PStr ''10.00'', PInt 110,
              PStr ''Sent'', PStr ''USD'']])"
  by (simp add: export_invoices_dispatch export_to_sage_csv_def example_sage_row bad_sage_row)

lemma bad_dates_not_ok: "\<not> dates_ok L0 bad_invoice"
  by (simp add: dates_ok_def date_ok_def bad_date)

theorem malformed_date_fails_export_witness:
  "bad_invoice \<in> set [example_invoice, bad_invoice] \<and> \<not> dates_ok L0 bad_invoice \<and>
   ''wave_csv'' \<in> set supported_formats \<and> items_of L0 bad_invoice \<noteq> Inr [] \<and>
   (\<exists>e. export_invoices L0 clock1 clock1 [example_invoice, bad_invoice] ''wave_csv'' = Inl e)"
proof -
  have m: "bad_invoice \<in> set [example_invoice, bad_invoice]" by simp
  have f: "''wave_csv'' \<in> set supported_formats" by (simp add: supported_formats_def)
  have i: "items_of L0 bad_invoice \<noteq> Inr []" by (simp add: example_items)
  then have i': "''wave_csv'' = ''xero_csv'' \<or> ''wave_csv'' = ''wave_csv'' \<longrightarrow>
                  items_of L0 bad_invoice \<noteq> Inr []" by simp
  from malformed_date_fails_export [OF m bad_dates_not_ok f i', of clock1 clock1]
  show ?thesis using m bad_dates_not_ok f i by blast
qed

subsection \<open>C2\<close>

lemma example_sage_export:
  "export_invoices L0 now1 now2 [example_invoice] ''sage_csv'' =
     Inr (csv_output L0 sage_fieldnames
            [[PStr ''Acme'', PStr ''INV-1'', PStr ''15/03/2024'', PStr ''14/04/2024'',
              PStr ''INV-1'', PStr ''Invoice for Acme'', PInt 100, PStr ''10.00'', PInt 110,
              PStr ''Sent'', PStr ''USD'']])"
  by (simp add: export_invoices_dispatch export_to_sage_csv_def example_sage_row)

lemma example_trns:
  "iif_trns_fields L0 example_invoice ''03/15/2024'' ''04/14/2024'' =
     Inr [''TRNS'', ''INVOICE'', ''03/15/2024'', ''Accounts Receivable'', ''Acme'', [], ''110'',
          ''INV-1'', [], ''N'', ''Y'', ''1 Main St'', ''Springfield'', ''US'', [], [],
          ''04/14/2024'', ''Net 30'', ''N'', []]"
  by (simp add: iif_trns_fields_def example_invoice_def example_lookup py_str_def show_int_values)

lemma example_spl:
  "iif_spl_fields L0 example_invoice ''03/15/2024'' example_item =
     Inr [''SPL'', ''03/15/2024'', ''Sales'', ''Acme'', [], ''-100'', ''INV-1'', ''Widget: '',
          ''N'', ''Y'']"
  by (simp add: iif_spl_fields_def example_item_lookup)
     (simp add: example_invoice_def example_lookup py_str_def show_int_values)

lemma example_iif_records:
  "iif_invoice_records L0 example_invoice =
     Inr [[''TRNS'', ''INVOICE'', ''03/15/2024'', ''Accounts Receivable'', ''Acme'', [], ''110'',
           ''INV-1'', [], ''N'', ''Y'', ''1 Main St'', ''Springfield'', ''US'', [], [],
           ''04/14/2024'', ''Net 30'', ''N'', []],
          [''SPL'', ''03/15/2024'', ''Sales'', ''Acme'', [], ''-100'', ''INV-1'', ''Widget: '',
           ''N'', ''Y'']]"
  by (simp add: iif_invoice_records_def example_dates strftime_mar15 strftime_apr14 example_trns
      example_items example_spl)

lemma example_iif_export:
  "export_invoices L0 now1 now2 [example_invoice] ''quickbooks_iif'' =
     Inr (str_join [CHR 0x0A]
       [iif_hdr_columns,
        tab_join [''HDR'', ''QuickBooks Pro'', ''2023'', ''Release'', ''1'',
                  strftime L0 now1 ''%m/%d/%Y'', strftime L0 now2 ''%H:%M:%S'', ''N''],
        iif_trns_columns,
        tab_join [''TRNS'', ''INVOICE'', ''03/15/2024'', ''Accounts Receivable'', ''Acme'', [],
                  ''110'', ''INV-1'', [], ''N'', ''Y'', ''1 Main St'', ''Springfield'', ''US'',
                  [], [], ''04/14/2024'', ''Net 30'', ''N'', []],
        tab_join [''SPL'', ''03/15/2024'', ''Sales'', ''Acme'', [], ''-100'', ''INV-1'',
                  ''Widget: '', ''N'', ''Y''],
        ''ENDTRNS''])"
  by (simp add: export_invoices_dispatch export_to_quickbooks_iif_def example_iif_records
      iif_header_def)

text \<open>
  C2 (as stated, refuted). The same batch exported as \<open>quickbooks_iif\<close> by a call at
  09:00:00 and by a call thirty seconds later: the two texts differ (in the time field of
  the \<open>HDR\<close> line).
\<close>

theorem iif_export_differs_with_clock_counterexample:
  "export_invoices L0 clock1 clock1 [example_invoice] ''quickbooks_iif'' \<noteq>
   export_invoices L0 clock2 clock2 [example_invoice] ''quickbooks_iif''"
  by (simp add: example_iif_export strftime_clock tab_join_def)

theorem export_depends_on_clock_only_in_iif_header_witness:
  "''sage_csv'' \<noteq> ''quickbooks_iif'' \<and>
   export_invoices L0 clock1 clock1 [example_invoice] ''sage_csv'' =
     export_invoices L0 clock2 clock2 [example_invoice] ''sage_csv'' \<and>
   export_invoices L0 clock1 clock1 [example_invoice] ''sage_csv'' =
     Inr (csv_output L0 sage_fieldnames
            [[PStr ''Acme'', PStr ''INV-1'', PStr ''15/03/2024'', PStr ''14/04/2024'',
              PStr ''INV-1'', PStr ''Invoice for Acme'', PInt 100, PStr ''10.00'', PInt 110,
              PStr ''Sent'', PStr ''USD'']])"
proof -
  have ne: "''sage_csv'' \<noteq> ''quickbooks_iif''" by simp
  from export_depends_on_clock_only_in_iif_header
    [of "''sage_csv''" L0 clock1 clock1 "[example_invoice]" clock2 clock2] ne
  have "export_invoices L0 clock1 clock1 [example_invoice] ''sage_csv'' =
        export_invoices L0 clock2 clock2 [example_invoice] ''sage_csv''" by blast
  with ne example_sage_export [of clock1 clock1] show ?thesis by simp
qed

subsection \<open>C4\<close>





subsection \<open>C6\<close>

lemma example2_lookup:
  "py_getitem example_invoice2 ''clientName'' = Inr (PStr ''Acme'')"
  "py_getitem example_invoice2 ''clientEmail'' = Inr (PStr ''ap@acme.example'')"
  "py_getitem example_invoice2 ''invoiceNumber'' = Inr (PStr ''INV-1'')"
  "py_getitem example_invoice2 ''total'' = Inr (PInt 110)"
  "py_getitem example_invoice2 ''status'' = Inr (PStr ''sent'')"
  by (simp_all add: example_invoice2_def example_lookup)

lemma example2_tax:
  "wave_tax_name L0 example_invoice2 = Inr ''VAT''"
  "wave_tax_rate L0 example_invoice2 = Inr ''10%''"
  by (simp_all add: wave_tax_name_def wave_tax_rate_def example_invoice2_def example_lookup
      py_truthy_def py_float_def L0_fields py_str_def show_int_values)

lemma example_item_formats:
  "py_format_2f L0 (PInt 50) = Inr ''50.00''"
  "py_format_2f L0 (PInt 100) = Inr ''100.00''"
  by (simp_all add: py_format_2f_def L0_fields frac_format_50 frac_format_100)

lemma example2_wave_row_first:
  "wave_row L0 example_invoice2 (0, example_item) =
     Inr [PStr ''Acme'', PStr ''ap@acme.example'', PStr ''INV-1'', PStr ''2024-03-15'',
          PStr ''2024-04-14'', PStr ''Widget'', PStr [], PInt 2, PStr ''50.00'', PStr ''100.00'',
          PStr ''VAT'', PStr ''10%'', PInt 110, PStr ''Sent'']"
  by (simp add: wave_row_def example2_lookup example2_dates example_item_lookup
      example_item_formats example2_tax strftime_mar15 strftime_apr14 title_sent)

lemma example2_wave_row_second:
  "wave_row L0 example_invoice2 (Suc 0, example_item) =
     Inr [PStr ''Acme'', PStr ''ap@acme.example'', PStr ''INV-1'', PStr ''2024-03-15'',
          PStr ''2024-04-14'', PStr ''Widget'', PStr [], PInt 2, PStr ''50.00'', PStr ''100.00'',
          PStr ''VAT'', PStr ''10%'', PStr [], PStr ''Sent'']"
  by (simp add: wave_row_def example2_lookup example2_dates example_item_lookup
      example_item_formats example2_tax strftime_mar15 strftime_apr14 title_sent)

lemma example2_wave_rows:
  "wave_invoice_rows L0 example_invoice2 =
     Inr [[PStr ''Acme'', PStr ''ap@acme.example'', PStr ''INV-1'', PStr ''2024-03-15'',
           PStr ''2024-04-14'', PStr ''Widget'', PStr [], PInt 2, PStr ''50.00'', PStr ''100.00'',
           PStr ''VAT'', PStr ''10%'', PInt 110, PStr ''Sent''],
          [PStr ''Acme'', PStr ''ap@acme.example'', PStr ''INV-1'', PStr ''2024-03-15'',
           PStr ''2024-04-14'', PStr ''Widget'', PStr [], PInt 2, PStr ''50.00'', PStr ''100.00'',
           PStr ''VAT'', PStr ''10%'', PStr [], PStr ''Sent'']]"
  by (simp add: wave_invoice_rows_def example_items example2_wave_row_first
      example2_wave_row_second)

theorem wave_total_on_first_row_only_witness:
  "wave_invoice_rows L0 example_invoice2 =
     Inr [[PStr ''Acme'', PStr ''ap@acme.example'', PStr ''INV-1'', PStr ''2024-03-15'',
           PStr ''2024-04-14'', PStr ''Widget'', PStr [], PInt 2, PStr ''50.00'', PStr ''100.00'',
           PStr ''VAT'', PStr ''10%'', PInt 110, PStr ''Sent''],
          [PStr ''Acme'', PStr ''ap@acme.example'', PStr ''INV-1'', PStr ''2024-03-15'',
           PStr ''2024-04-14'', PStr ''Widget'', PStr [], PInt 2, PStr ''50.00'', PStr ''100.00'',
           PStr ''VAT'', PStr ''10%'', PStr [], PStr ''Sent'']] \<and>
   items_of L0 example_invoice2 = Inr [example_item, example_item] \<and>
   py_getitem example_invoice2 ''total'' = Inr (PInt 110) \<and>
   csv_value L0 (PInt 110) = ''110'' \<and>
   csv_field (csv_value L0 (PInt 110)) = ''110'' \<and>
   csv_field (csv_value L0 (PStr [])) = []"
proof -
  define rows where "rows =
     [[PStr ''Acme'', PStr ''ap@acme.example'', PStr ''INV-1'', PStr ''2024-03-15'',
       PStr ''2024-04-14'', PStr ''Widget'', PStr [], PInt 2, PStr ''50.00'', PStr ''100.00'',
       PStr ''VAT'', PStr ''10%'', PInt 110, PStr ''Sent''],
      [PStr ''Acme'', PStr ''ap@acme.example'', PStr ''INV-1'', PStr ''2024-03-15'',
       PStr ''2024-04-14'', PStr ''Widget'', PStr [], PInt 2, PStr ''50.00'', PStr ''100.00'',
       PStr ''VAT'', PStr ''10%'', PStr [], PStr ''Sent'' :: frac pyval]]"
  have r: "wave_invoice_rows L0 example_invoice2 = Inr rows"
    by (simp add: rows_def example2_wave_rows)
  have v: "csv_value L0 (PInt 110) = ''110''"
    by (simp add: csv_value_def py_str_def show_int_values)
  then have ne: "csv_value L0 (PInt 110) \<noteq> []" by simp
  have ni: "[example_item, example_item] \<noteq> []" by simp
  note w = wave_total_on_first_row_only [OF r example_items(2) ni example2_lookup(4) ne]
  from w have "\<forall>j. 0 < j \<and> j < length rows \<longrightarrow> csv_field (csv_value L0 (rows ! j ! 12)) = []"
    by blast
  then have "0 < (1::nat) \<and> 1 < length rows \<longrightarrow>
               csv_field (csv_value L0 (rows ! 1 ! 12)) = []"
    by (rule spec)
  moreover have "length rows = 2" by (simp add: rows_def)
  ultimately have "csv_field (csv_value L0 (rows ! 1 ! 12)) = []"
    by simp
  then have later: "csv_field (csv_value L0 (PStr [])) = []"
    by (simp add: rows_def)
  have first: "csv_field (csv_value L0 (PInt 110)) = ''110''"
    by (simp add: v csv_field_def)
  from later first v show ?thesis
    using example2_wave_rows example_items(2) example2_lookup(4) by simp
qed

subsection \<open>C8 and C9\<close>



theorem freshbooks_is_generic_witness:
  "export_invoices L0 clock1 clock1 [example_invoice] ''freshbooks_csv'' =
   export_invoices L0 clock1 clock1 [example_invoice] ''generic_csv''"
  by (rule freshbooks_is_generic [THEN conjunct2, THEN conjunct2])

end
